theory Spec2Isabelle
  imports Main "HOL-Library.Word"
begin

unbundle bit_operations_syntax

section \<open>Machine types of the sources\<close>

text \<open>
  The X11 backend is compiled for LP64 Linux: \<open>unsigned long\<close> (XID, Atom, Time) and
  \<open>long\<close> are 64 bits wide, \<open>int\<close> and \<open>unsigned int\<close> are 32 bits wide. Values
  are kept as machine words, so that \<open>+\<close> and \<open>-\<close> wrap as the compiled code does.
\<close>

type_synonym XID = "64 word"
type_synonym Window = "64 word"
type_synonym Atom = "64 word"
type_synonym Time = "64 word"
type_synonym RRMode = "64 word"
type_synonym RRCrtc = "64 word"
type_synonym RROutput = "64 word"
type_synonym cint = "32 word"
type_synonym cuint = "32 word"
type_synonym clong = "64 word"

section \<open>Video modes (sf::VideoMode) and the UIKit monitor\<close>

text \<open>
  \<open>sf::VideoMode\<close> holds a \<open>Vector2u size\<close> (here \<open>mode_size\<close>, a pair, x first) and
  \<open>bitsPerPixel\<close>; its \<open>operator==\<close> compares both members.
\<close>

record VideoMode =
  mode_size :: "cuint \<times> cuint"
  bitsPerPixel :: cuint

text \<open>
  \<open>MonitorImplUIKit::getFullscreenModes\<close>. The desktop mode comes from
  \<open>getDesktopMode()\<close>, which asks UIKit for the screen bounds; it is the parameter
  \<open>desktop\<close>.
\<close>

definition getFullscreenModes :: "VideoMode \<Rightarrow> VideoMode list" where
  "getFullscreenModes desktop =
     [desktop,
      \<lparr>mode_size = (snd (mode_size desktop), fst (mode_size desktop)), bitsPerPixel = bitsPerPixel desktop\<rparr>]"

section \<open>The X11 window implementation: state\<close>

text \<open>The \<open>sf::Event\<close> alternatives that the modelled code pushes.\<close>

datatype Event = Closed | FocusGained | FocusLost

text \<open>
  The members of \<open>WindowImplX11\<close> that the modelled member functions read or write.
  \<open>this\<close> is the address of the object, which \<open>fullscreenWindow\<close> is compared with;
  \<open>m_events\<close> is the queue that \<open>pushEvent\<close> appends to.
\<close>

record WindowImplX11 =
  this :: nat
  m_window :: Window
  m_screen :: int
  m_keyRepeat :: bool
  m_fullscreen :: bool
  m_cursorGrabbed :: bool
  m_oldVideoMode :: RRMode
  m_oldRRCrtc :: RRCrtc
  m_dropSource :: Window
  m_acceptedFileType :: Atom
  m_lastInputTime :: Time
  m_lastCursor :: XID
  m_hiddenCursor :: XID
  m_events :: "Event list"

text \<open>The payload of an \<open>XClientMessageEvent\<close> that the code fills in or reads.\<close>

record XClientMessage =
  cm_window :: Window
  cm_message_type :: Atom
  cm_format :: cint
  cm_data :: "clong list"

text \<open>\<open>XWMHints\<close>: only the \<open>flags\<close> member is touched.\<close>

record XWMHints =
  flags :: clong

text \<open>
  What the code asks of the X server and of the system, in the order of the calls.
  Calls that only read (and \<open>XFlush\<close>, \<open>XFree\<close>) are not recorded.
\<close>

datatype XRequest =
    XGrabPointer Window
  | XUngrabPointer
  | Sleep nat
  | XRaiseWindow Window
  | XSetInputFocus Window
  | XSendEvent Window XClientMessage
  | XSetWMHints Window XWMHints
  | XConvertSelection Atom Atom Atom Window Time
  | XRRSetCrtcConfig RRCrtc cint cint RRMode cuint RROutput
  | XDefineCursor Window XID

text \<open>
  The state outside the window object: the file-level variables of the anonymous
  namespace, the function-local statics of \<open>ewmhSupported\<close>, the static
  \<open>netWmPing\<close> of \<open>processEvent\<close> (\<open>None\<close> until its declaration is first
  reached), the requests issued so far and the lines written to \<open>sf::err()\<close>.
\<close>

record World =
  fullscreenWindow :: "nat option"
  checked :: bool
  ewmhSupportedFlag :: bool
  windowManagerName :: string
  netWmPingStatic :: "Atom option"
  requests :: "XRequest list"
  errs :: "string list"

section \<open>setMouseCursorGrabbed\<close>

definition maxTrialsCount :: nat where
  "maxTrialsCount = 5"

definition GrabSuccess :: cint where
  "GrabSuccess = 0"

definition request :: "XRequest \<Rightarrow> World \<Rightarrow> World" where
  "request r X = X\<lparr>requests := requests X @ [r]\<rparr>"

definition err :: "string \<Rightarrow> World \<Rightarrow> World" where
  "err msg X = X\<lparr>errs := errs X @ [msg]\<rparr>"

text \<open>
  The \<open>for\<close> loop of \<open>setMouseCursorGrabbed\<close>. \<open>grabResult trial\<close> is the value
  \<open>XGrabPointer\<close> returns at the attempt numbered \<open>trial\<close> (the server may answer
  differently each time, which is why the code retries).
\<close>

function grabTrials :: "(nat \<Rightarrow> cint) \<Rightarrow> nat \<Rightarrow> WindowImplX11 \<times> World \<Rightarrow> WindowImplX11 \<times> World" where
  "grabTrials grabResult trial (w, X) =
     (if trial < maxTrialsCount then
        (let X1 = request (XGrabPointer (m_window w)) X in
         if grabResult trial = GrabSuccess then (w\<lparr>m_cursorGrabbed := True\<rparr>, X1)
         else grabTrials grabResult (trial + 1) (w, request (Sleep 50) X1))
      else (w, X))"
  by pat_completeness auto
termination
  by (relation "measure (\<lambda>(g, trial, s). maxTrialsCount - trial)") auto

declare grabTrials.simps [simp del]

definition setMouseCursorGrabbed ::
  "(nat \<Rightarrow> cint) \<Rightarrow> bool \<Rightarrow> WindowImplX11 \<times> World \<Rightarrow> WindowImplX11 \<times> World" where
  "setMouseCursorGrabbed grabResult grabbed s =
     (case s of (w, X) \<Rightarrow>
        if m_fullscreen w \<or> (m_cursorGrabbed w = grabbed) then (w, X)
        else if grabbed then
          (case grabTrials grabResult 0 (w, X) of (w1, X1) \<Rightarrow>
             if \<not> m_cursorGrabbed w1 then (w1, err ''Failed to grab mouse cursor'' X1)
             else (w1, X1))
        else (w\<lparr>m_cursorGrabbed := False\<rparr>, request XUngrabPointer X))"

text \<open>The number of \<open>XGrabPointer\<close> calls among a list of requests.\<close>

fun isGrab :: "XRequest \<Rightarrow> bool" where
  "isGrab (XGrabPointer _) = True"
| "isGrab _ = False"

definition grabAttempts :: "XRequest list \<Rightarrow> nat" where
  "grabAttempts rs = length (filter isGrab rs)"

text \<open>One failed attempt of the loop: the grab, then the 50 ms sleep.\<close>

definition grabRound :: "WindowImplX11 \<Rightarrow> XRequest list" where
  "grabRound w = [XGrabPointer (m_window w), Sleep 50]"

section \<open>processEvents: the native event queue\<close>

text \<open>
  The members of the \<open>XEvent\<close> union that the code reads: \<open>type\<close> and
  \<open>xany.window\<close> (shared by every member), \<open>xkey.keycode\<close> and \<open>xkey.time\<close>,
  and the \<open>xclient\<close> members.
\<close>

record XEvent =
  ev_type :: cint
  xany_window :: Window
  xkey_keycode :: cuint
  xkey_time :: Time
  xclient_message_type :: Atom
  xclient_format :: cint
  xclient_data_l :: "clong list"

text \<open>Event type codes of \<open>X11/X.h\<close>.\<close>

definition KeyPress :: cint where
  "KeyPress = 2"

definition KeyRelease :: cint where
  "KeyRelease = 3"

definition ClientMessage :: cint where
  "ClientMessage = 33"

definition GenericEvent :: cint where
  "GenericEvent = 35"

text \<open>
  \<open>checkEvent\<close>, the predicate handed to \<open>XCheckIfEvent\<close>; \<open>userData\<close> is the
  window handle. \<open>wmProtocols\<close> is the function-local static
  \<open>getAtom("WM_PROTOCOLS")\<close>.
\<close>

definition checkEvent :: "Atom \<Rightarrow> XEvent \<Rightarrow> Window \<Rightarrow> bool" where
  "checkEvent wmProtocols event userData =
     (if xany_window event = userData \<or> ev_type event = GenericEvent then True
      else if ev_type event = ClientMessage then xclient_message_type event \<noteq> wmProtocols
      else False)"

text \<open>
  Xlib's \<open>XCheckIfEvent\<close> on the queue of events that have arrived: the first event
  the predicate accepts is removed and returned, the other events stay queued in their
  order; \<open>None\<close> is the return value \<open>False\<close>.
\<close>

fun XCheckIfEvent :: "(XEvent \<Rightarrow> bool) \<Rightarrow> XEvent list \<Rightarrow> (XEvent \<times> XEvent list) option" where
  "XCheckIfEvent predicate [] = None"
| "XCheckIfEvent predicate (e # queue) =
     (if predicate e then Some (e, queue)
      else (case XCheckIfEvent predicate queue of
              None \<Rightarrow> None
            | Some (found, rest) \<Rightarrow> Some (found, e # rest)))"

lemma XCheckIfEvent_length:
  "XCheckIfEvent predicate queue = Some (found, rest) \<Longrightarrow> length queue = Suc (length rest)"
  by (induction queue arbitrary: found rest) (auto split: if_splits option.splits)

text \<open>
  The inner loop \<open>while (event.type == KeyRelease)\<close> of \<open>processEvents\<close>. It
  returns \<open>processThisEvent\<close>, the event left in \<open>event\<close>, the queue, and the events
  handed to \<open>processEvent\<close> so far (\<open>forwarded\<close>, oldest first). \<open>processEvent\<close>
  itself reads neither the native queue nor \<open>m_keyRepeat\<close>; here a call of it is
  recorded by appending its argument.
\<close>

function keyRepeatLoop ::
  "Atom \<Rightarrow> WindowImplX11 \<Rightarrow> XEvent \<Rightarrow> XEvent list \<Rightarrow> XEvent list \<Rightarrow>
   bool \<times> XEvent \<times> XEvent list \<times> XEvent list" where
  "keyRepeatLoop wmProtocols w event queue forwarded =
     (if ev_type event = KeyRelease then
        (case XCheckIfEvent (\<lambda>e. checkEvent wmProtocols e (m_window w)) queue of
           Some (nextEvent, queue1) \<Rightarrow>
             if ev_type nextEvent = KeyPress \<and> xkey_keycode nextEvent = xkey_keycode event \<and>
                xkey_time event \<le> xkey_time nextEvent \<and>
                xkey_time nextEvent \<le> xkey_time event + 1
             then (if m_keyRepeat w then (True, nextEvent, queue1, forwarded)
                   else (False, event, queue1, forwarded))
             else keyRepeatLoop wmProtocols w nextEvent queue1 (forwarded @ [event])
         | None \<Rightarrow> (True, event, queue, forwarded))
      else (True, event, queue, forwarded))"
  by pat_completeness auto
termination
  by (relation "measure (\<lambda>(a, w, event, queue, forwarded). length queue)")
     (auto dest: XCheckIfEvent_length)

declare keyRepeatLoop.simps [simp del]

lemma keyRepeatLoop_length:
  "keyRepeatLoop wmProtocols w event queue forwarded = (b, event1, queue1, forwarded1) \<Longrightarrow>
   length queue1 \<le> length queue"
proof (induction wmProtocols w event queue forwarded rule: keyRepeatLoop.induct)
  case (1 wmProtocols w event queue forwarded)
  show ?case
  proof (cases "XCheckIfEvent (\<lambda>e. checkEvent wmProtocols e (m_window w)) queue")
    case None
    with "1.prems" show ?thesis
      by (subst (asm) keyRepeatLoop.simps) (auto split: if_splits)
  next
    case (Some found)
    obtain nextEvent rest where f: "found = (nextEvent, rest)" by (cases found)
    have len: "length queue = Suc (length rest)"
      using Some f by (simp add: XCheckIfEvent_length)
    from "1.prems" show ?thesis
      using Some f len "1.IH"[of "(nextEvent, rest)" nextEvent rest]
      by (subst (asm) keyRepeatLoop.simps) (auto split: if_splits)
  qed
qed

text \<open>
  The outer loop of \<open>processEvents\<close>. The result is the list of events handed to
  \<open>processEvent\<close>, in the order of the calls, and what is left in the native queue.
  The final \<open>ClipboardImpl::processEvents()\<close> serves the clipboard's own window and
  is outside this model.
\<close>

function processEventsLoop ::
  "Atom \<Rightarrow> WindowImplX11 \<Rightarrow> XEvent list \<Rightarrow> XEvent list \<Rightarrow> XEvent list \<times> XEvent list" where
  "processEventsLoop wmProtocols w queue forwarded =
     (case XCheckIfEvent (\<lambda>e. checkEvent wmProtocols e (m_window w)) queue of
        None \<Rightarrow> (forwarded, queue)
      | Some (event, queue1) \<Rightarrow>
          (case keyRepeatLoop wmProtocols w event queue1 forwarded of
             (processThisEvent, event1, queue2, forwarded1) \<Rightarrow>
               processEventsLoop wmProtocols w queue2
                 (if processThisEvent then forwarded1 @ [event1] else forwarded1)))"
  by pat_completeness auto
termination
  by (relation "measure (\<lambda>(a, w, queue, forwarded). length queue)")
     (auto dest!: XCheckIfEvent_length keyRepeatLoop_length[OF sym])

declare processEventsLoop.simps [simp del]

definition processEvents :: "Atom \<Rightarrow> WindowImplX11 \<Rightarrow> XEvent list \<Rightarrow> XEvent list \<times> XEvent list" where
  "processEvents wmProtocols w queue = processEventsLoop wmProtocols w queue []"

definition setKeyRepeatEnabled :: "bool \<Rightarrow> WindowImplX11 \<Rightarrow> WindowImplX11" where
  "setKeyRepeatEnabled enabled w = w\<lparr>m_keyRepeat := enabled\<rparr>"

text \<open>
  The key-repeat filter in the words of the specification. A key-repeat pair is a
  \<open>KeyRelease\<close> followed by a \<open>KeyPress\<close> with the same keycode and a timestamp
  at most 1 ms later; timestamps are read as numbers.
\<close>

definition keyRepeatPair :: "XEvent \<Rightarrow> XEvent \<Rightarrow> bool" where
  "keyRepeatPair released pressed =
     (ev_type released = KeyRelease \<and> ev_type pressed = KeyPress \<and>
      xkey_keycode pressed = xkey_keycode released \<and>
      unat (xkey_time released) \<le> unat (xkey_time pressed) \<and>
      unat (xkey_time pressed) \<le> unat (xkey_time released) + 1)"

text \<open>
  What is forwarded from a sequence of events, all of them for this window: of a
  key-repeat pair only the \<open>KeyPress\<close> when key repeat is enabled and nothing when it
  is disabled; every other event, in order.
\<close>

fun forwardedSpec :: "bool \<Rightarrow> XEvent list \<Rightarrow> XEvent list" where
  "forwardedSpec keyRepeat [] = []"
| "forwardedSpec keyRepeat [e] = [e]"
| "forwardedSpec keyRepeat (e # n # es) =
     (if keyRepeatPair e n then
        (if keyRepeat then n # forwardedSpec keyRepeat es else forwardedSpec keyRepeat es)
      else e # forwardedSpec keyRepeat (n # es))"

text \<open>
  The same filter with the pair taken from the native queue as it stands: the
  \<open>KeyRelease\<close> and the \<open>KeyPress\<close> are neighbours in the queue itself, and both
  match the window.
\<close>

fun forwardedNativeNeighbours :: "bool \<Rightarrow> (XEvent \<Rightarrow> bool) \<Rightarrow> XEvent list \<Rightarrow> XEvent list" where
  "forwardedNativeNeighbours keyRepeat matches [] = []"
| "forwardedNativeNeighbours keyRepeat matches [e] = (if matches e then [e] else [])"
| "forwardedNativeNeighbours keyRepeat matches (e # n # es) =
     (if matches e \<and> matches n \<and> keyRepeatPair e n then
        (if keyRepeat then n # forwardedNativeNeighbours keyRepeat matches es
         else forwardedNativeNeighbours keyRepeat matches es)
      else if matches e then e # forwardedNativeNeighbours keyRepeat matches (n # es)
      else forwardedNativeNeighbours keyRepeat matches (n # es))"

text \<open>
  The events the window picks out of the native queue (\<open>checkEvent\<close> with the
  window's handle as user data).
\<close>

definition matchesWindow :: "Atom \<Rightarrow> WindowImplX11 \<Rightarrow> XEvent \<Rightarrow> bool" where
  "matchesWindow wmProtocols w e = checkEvent wmProtocols e (m_window w)"

text \<open>No queued \<open>KeyRelease\<close> carries the largest value of \<open>Time\<close>.\<close>

definition timesBelowMax :: "XEvent list \<Rightarrow> bool" where
  "timesBelowMax es = (\<forall>e\<in>set es. ev_type e = KeyRelease \<longrightarrow> xkey_time e \<noteq> - 1)"

section \<open>EWMH detection and getPosition\<close>

text \<open>
  What one call of \<open>XGetWindowProperty\<close> hands back: its return value and the output
  parameters \<open>actual_type\<close>, \<open>actual_format\<close>, \<open>bytes_after\<close> and the data
  pointer (\<open>None\<close> is \<open>nullptr\<close>). Xlib stores \<open>nitems\<close> items behind the
  data pointer, so \<open>numItems\<close> is the length of the data.
\<close>

record XProperty =
  prop_result :: cint
  actualType :: Atom
  actualFormat :: cint
  numBytes :: clong
  prop_data :: "clong list option"

definition items :: "XProperty \<Rightarrow> clong list" where
  "items p = (case prop_data p of None \<Rightarrow> [] | Some xs \<Rightarrow> xs)"

definition numItems :: "XProperty \<Rightarrow> nat" where
  "numItems p = length (items p)"

text \<open>
  The part of the display connection that these functions query. \<open>getAtom\<close> is
  \<open>sf::priv::getAtom(name, onlyIfExists)\<close> (0 is \<open>None\<close>);
  \<open>XGetWindowProperty w property long_length req_type\<close> is the call with offset 0
  and \<open>delete = False\<close>; \<open>fromUtf8\<close> is \<open>sf::String::fromUtf8\<close> on the bytes of
  the reply.
\<close>

record XProperties =
  getAtom :: "string \<Rightarrow> bool \<Rightarrow> Atom"
  DefaultRootWindow :: Window
  XGetWindowProperty :: "Window \<Rightarrow> Atom \<Rightarrow> clong \<Rightarrow> Atom \<Rightarrow> XProperty"
  fromUtf8 :: "clong list \<Rightarrow> string"

text \<open>Constants of \<open>X11/X.h\<close> and \<open>X11/Xatom.h\<close>.\<close>

definition Success :: cint where
  "Success = 0"

definition XA_CARDINAL :: Atom where
  "XA_CARDINAL = 6"

definition XA_STRING :: Atom where
  "XA_STRING = 31"

definition XA_WINDOW :: Atom where
  "XA_WINDOW = 33"

text \<open>
  \<open>ewmhSupported\<close>, with its statics \<open>checked\<close> and \<open>ewmhSupported\<close>
  (\<open>ewmhSupportedFlag\<close>) kept in the world. The result is the returned \<open>bool\<close> and
  the world after the call.
\<close>

definition ewmhSupported :: "XProperties \<Rightarrow> World \<Rightarrow> bool \<times> World" where
  "ewmhSupported srv X =
     (if checked X then (ewmhSupportedFlag X, X)
      else
        let X1 = X\<lparr>checked := True\<rparr>;
            netSupportingWmCheck = getAtom srv ''_NET_SUPPORTING_WM_CHECK'' True;
            netSupported = getAtom srv ''_NET_SUPPORTED'' True
        in
        if netSupportingWmCheck = 0 \<or> netSupported = 0 then (False, X1)
        else
          let r1 = XGetWindowProperty srv (DefaultRootWindow srv) netSupportingWmCheck 1 XA_WINDOW in
          if prop_result r1 \<noteq> Success \<or> actualType r1 \<noteq> XA_WINDOW \<or> numItems r1 \<noteq> 1
          then (False, X1)
          else
            let rootWindow = items r1 ! 0 in
            if rootWindow = 0 then (False, X1)
            else
              let r2 = XGetWindowProperty srv rootWindow netSupportingWmCheck 1 XA_WINDOW in
              if prop_result r2 \<noteq> Success \<or> actualType r2 \<noteq> XA_WINDOW \<or> numItems r2 \<noteq> 1
              then (False, X1)
              else
                let childWindow = items r2 ! 0 in
                if childWindow = 0 then (False, X1)
                else if rootWindow \<noteq> childWindow then (False, X1)
                else
                  let X2 = X1\<lparr>ewmhSupportedFlag := True\<rparr>;
                      netWmName = getAtom srv ''_NET_WM_NAME'' True
                  in
                  if netWmName = 0 then (True, X2)
                  else
                    let utf8 = getAtom srv ''UTF8_STRING'' False;
                        utf8StringType = (if utf8 = 0 then XA_STRING else utf8);
                        r3 = XGetWindowProperty srv rootWindow netWmName 0x7fffffff utf8StringType
                    in
                    if actualType r3 \<noteq> 0 \<and> numItems r3 \<noteq> 0
                    then (True, X2\<lparr>windowManagerName := fromUtf8 srv (items r3)\<rparr>)
                    else (True, X2))"

text \<open>
  \<open>getEWMHFrameExtents\<close>: the two reference parameters are passed in and returned
  (they are written only on success).
\<close>

definition getEWMHFrameExtents ::
  "XProperties \<Rightarrow> Window \<Rightarrow> clong \<times> clong \<Rightarrow> World \<Rightarrow> (bool \<times> clong \<times> clong) \<times> World" where
  "getEWMHFrameExtents srv win extents X =
     (case extents of (xFrameExtent, yFrameExtent) \<Rightarrow>
      case ewmhSupported srv X of (supported, X1) \<Rightarrow>
        if \<not> supported then ((False, xFrameExtent, yFrameExtent), X1)
        else
          let frameExtents = getAtom srv ''_NET_FRAME_EXTENTS'' True in
          if frameExtents = 0 then ((False, xFrameExtent, yFrameExtent), X1)
          else
            let r = XGetWindowProperty srv win frameExtents 4 XA_CARDINAL in
            if prop_result r = Success \<and> actualType r = XA_CARDINAL \<and> actualFormat r = 32 \<and>
               numItems r = 4 \<and> numBytes r = 0 \<and> prop_data r \<noteq> None
            then ((True, items r ! 0, items r ! 2), X1)
            else ((False, xFrameExtent, yFrameExtent), X1))"

definition wmAbsPosGood :: "string list" where
  "wmAbsPosGood = [''Enlightenment'', ''FVWM'', ''i3'']"

definition isWMAbsolutePositionGood :: "XProperties \<Rightarrow> World \<Rightarrow> bool \<times> World" where
  "isWMAbsolutePositionGood srv X =
     (case ewmhSupported srv X of (supported, X1) \<Rightarrow>
        if \<not> supported then (False, X1)
        else (list_ex (\<lambda>name. name = windowManagerName X1) wmAbsPosGood, X1))"

text \<open>
  The window tree and geometry as the server reports them. Each call may fail
  (\<open>None\<close>); the code ignores the return values, so the output variables then keep
  the zeros they were initialised with.
\<close>

record XWindowTree =
  XTranslateCoordinates :: "Window \<Rightarrow> Window \<Rightarrow> (cint \<times> cint) option"
  XQueryTree :: "Window \<Rightarrow> Window option"
  XGetGeometry :: "Window \<Rightarrow> (cint \<times> cint) option"

definition getParentWindow :: "XWindowTree \<Rightarrow> Window \<Rightarrow> Window" where
  "getParentWindow tree win = (case XQueryTree tree win of None \<Rightarrow> 0 | Some parent \<Rightarrow> parent)"

text \<open>
  The \<open>while\<close> loop of \<open>getPosition\<close> that climbs to the window whose parent is the
  root. Nothing bounds it: \<open>None\<close> is the loop that never ends.
\<close>

partial_function (option) climbToRoot :: "XWindowTree \<Rightarrow> Window \<Rightarrow> Window \<Rightarrow> Window option" where
  "climbToRoot tree root ancestor =
     (if getParentWindow tree ancestor \<noteq> root
      then climbToRoot tree root (getParentWindow tree ancestor)
      else Some ancestor)"

definition getPosition ::
  "XProperties \<Rightarrow> XWindowTree \<Rightarrow> WindowImplX11 \<Rightarrow> World \<Rightarrow> ((cint \<times> cint) \<times> World) option" where
  "getPosition srv tree w X =
     (let (xAbsRelToRoot, yAbsRelToRoot) =
            (case XTranslateCoordinates tree (m_window w) (DefaultRootWindow srv) of
               None \<Rightarrow> (0, 0) | Some p \<Rightarrow> p)
      in
      case isWMAbsolutePositionGood srv X of (good, X1) \<Rightarrow>
        if good then Some ((xAbsRelToRoot, yAbsRelToRoot), X1)
        else
          case getEWMHFrameExtents srv (m_window w) (0, 0) X1 of
            ((gotFrameExtents, xFrameExtent, yFrameExtent), X2) \<Rightarrow>
              if gotFrameExtents
              then Some ((xAbsRelToRoot - ucast xFrameExtent, yAbsRelToRoot - ucast yFrameExtent), X2)
              else
                (case climbToRoot tree (DefaultRootWindow srv) (m_window w) of
                   None \<Rightarrow> None
                 | Some ancestor \<Rightarrow>
                     Some ((case XGetGeometry tree ancestor of None \<Rightarrow> (0, 0) | Some p \<Rightarrow> p), X2)))"

text \<open>
  The \<open>_NET_FRAME_EXTENTS\<close> property in the words of the specification: it is
  available when the atom exists and the window carries a complete value of four
  \<open>CARDINAL\<close>s; the left extent is item 0 and the top extent is item 2.
\<close>

definition frameExtentsOf :: "XProperties \<Rightarrow> Window \<Rightarrow> (clong \<times> clong) option" where
  "frameExtentsOf srv win =
     (let frameExtents = getAtom srv ''_NET_FRAME_EXTENTS'' True;
          r = XGetWindowProperty srv win frameExtents 4 XA_CARDINAL
      in if frameExtents \<noteq> 0 \<and> prop_result r = Success \<and> actualType r = XA_CARDINAL \<and>
            actualFormat r = 32 \<and> numBytes r = 0 \<and> prop_data r \<noteq> None \<and>
            length (items r) = 4
         then Some (items r ! 0, items r ! 2) else None)"

text \<open>The position that \<open>XTranslateCoordinates\<close> and \<open>XGetGeometry\<close> leave in the
  output variables.\<close>

definition absolutePosition :: "XProperties \<Rightarrow> XWindowTree \<Rightarrow> Window \<Rightarrow> cint \<times> cint" where
  "absolutePosition srv tree win =
     (case XTranslateCoordinates tree win (DefaultRootWindow srv) of None \<Rightarrow> (0, 0) | Some p \<Rightarrow> p)"

definition geometryPosition :: "XWindowTree \<Rightarrow> Window \<Rightarrow> cint \<times> cint" where
  "geometryPosition tree win = (case XGetGeometry tree win of None \<Rightarrow> (0, 0) | Some p \<Rightarrow> p)"

section \<open>requestFocus\<close>

text \<open>
  What the server answers to the focus queries: the window that has the input focus;
  the \<open>map_state\<close> of a window's attributes (\<open>None\<close> when
  \<open>XGetWindowAttributes\<close> returns 0); a window's WM hints (\<open>None\<close> is
  \<open>nullptr\<close>); and the status \<open>XSendEvent\<close> returns. The answers do not change
  during one call of \<open>requestFocus\<close>.
\<close>

record XFocus =
  XGetInputFocus :: Window
  XGetWindowAttributes :: "Window \<Rightarrow> cint option"
  XGetWMHints :: "Window \<Rightarrow> XWMHints option"
  XSendEventStatus :: cint

text \<open>Constants of \<open>X11/X.h\<close> and \<open>X11/Xutil.h\<close>.\<close>

definition IsUnmapped :: cint where
  "IsUnmapped = 0"

definition IsViewable :: cint where
  "IsViewable = 2"

definition XUrgencyHint :: clong where
  "XUrgencyHint = 256"

definition hasFocus :: "XFocus \<Rightarrow> WindowImplX11 \<Rightarrow> bool" where
  "hasFocus foc w = (m_window w = XGetInputFocus foc)"

text \<open>
  \<open>grabFocus\<close>. The return value of its \<open>XGetWindowAttributes\<close> is not checked;
  \<open>None\<close> stands for the read of the uninitialised \<open>attr.map_state\<close> when that
  call fails. The activation message carries \<open>data.l = {1, m_lastInputTime, 0, 0, 0}\<close>.
\<close>

definition grabFocus :: "XProperties \<Rightarrow> XFocus \<Rightarrow> WindowImplX11 \<Rightarrow> World \<Rightarrow> World option" where
  "grabFocus srv foc w X =
     (case ewmhSupported srv X of (supported, X1) \<Rightarrow>
        let netActiveWindow = (if supported then getAtom srv ''_NET_ACTIVE_WINDOW'' False else 0) in
        case XGetWindowAttributes foc (m_window w) of
          None \<Rightarrow> None
        | Some map_state \<Rightarrow>
            if map_state = IsUnmapped then Some X1
            else if netActiveWindow \<noteq> 0 then
              (let X2 = request (XSendEvent (DefaultRootWindow srv)
                           \<lparr>cm_window = m_window w, cm_message_type = netActiveWindow,
                            cm_format = 32, cm_data = [1, m_lastInputTime w, 0, 0, 0]\<rparr>) X1
               in if XSendEventStatus foc = 0
                  then Some (err ''Setting fullscreen failed, could not send \"_NET_ACTIVE_WINDOW\" event'' X2)
                  else Some X2)
            else Some (request (XSetInputFocus (m_window w)) (request (XRaiseWindow (m_window w)) X1)))"

text \<open>
  \<open>requestFocus\<close>; \<open>allWindows\<close> is the global list of SFML windows. When the
  window has no hints yet, \<open>XAllocWMHints\<close> supplies zeroed ones.
\<close>

definition requestFocus ::
  "XProperties \<Rightarrow> XFocus \<Rightarrow> WindowImplX11 list \<Rightarrow> WindowImplX11 \<Rightarrow> World \<Rightarrow> World option" where
  "requestFocus srv foc allWindows w X =
     (let sfmlWindowFocused = list_ex (hasFocus foc) allWindows in
      case XGetWindowAttributes foc (m_window w) of
        None \<Rightarrow> Some (err ''Failed to check if window is viewable while requesting focus'' X)
      | Some map_state \<Rightarrow>
          let windowViewable = (map_state = IsViewable) in
          if sfmlWindowFocused \<and> windowViewable then grabFocus srv foc w X
          else
            let hints = (case XGetWMHints foc (m_window w) of
                           None \<Rightarrow> \<lparr>flags = 0\<rparr> | Some h \<Rightarrow> h)
            in Some (request (XSetWMHints (m_window w) (hints\<lparr>flags := flags hints OR XUrgencyHint\<rparr>)) X))"

text \<open>The requests by which the code takes the focus: raising the window, setting the
  input focus, and the activation message to the root window.\<close>

fun takesFocus :: "XRequest \<Rightarrow> bool" where
  "takesFocus (XRaiseWindow _) = True"
| "takesFocus (XSetInputFocus _) = True"
| "takesFocus (XSendEvent _ _) = True"
| "takesFocus _ = False"

section \<open>setVideoMode and resetVideoMode\<close>

text \<open>The members of the XRandR structures that the code reads.\<close>

record XRRModeInfo =
  mode_id :: RRMode
  mode_width :: cuint
  mode_height :: cuint

record XRRScreenResources =
  modes :: "XRRModeInfo list"
  outputs :: "RROutput list"

record XRROutputInfo =
  connection :: cuint
  crtc :: RRCrtc

record XRRCrtcInfo =
  crtc_x :: cint
  crtc_y :: cint
  crtc_mode :: RRMode
  rotation :: cuint

text \<open>
  What the server and the system answer: \<open>VideoMode::getDesktopMode()\<close>, the
  presence of an extension, the root window of a screen, the XRandR queries
  (\<open>None\<close> is a null pointer), and the \<open>Status\<close> that \<open>XRRSetCrtcConfig\<close>
  returns.
\<close>

record XRandR =
  desktopMode :: VideoMode
  XQueryExtension :: "string \<Rightarrow> bool"
  RootWindow :: "int \<Rightarrow> Window"
  XRRGetScreenResources :: "Window \<Rightarrow> XRRScreenResources option"
  XRRGetOutputPrimary :: "Window \<Rightarrow> RROutput"
  XRRGetOutputInfo :: "RROutput \<Rightarrow> XRROutputInfo option"
  XRRGetCrtcInfo :: "RRCrtc \<Rightarrow> XRRCrtcInfo option"
  XRRSetCrtcConfigStatus :: cint

text \<open>Constants of \<open>X11/extensions/randr.h\<close>.\<close>

definition RRSetConfigSuccess :: cint where
  "RRSetConfigSuccess = 0"





definition checkXRandR :: "XRandR \<Rightarrow> World \<Rightarrow> bool \<times> World" where
  "checkXRandR rr X =
     (if \<not> XQueryExtension rr ''RANDR''
      then (False, err ''XRandR extension is not supported'' X)
      else (True, X))"

text \<open>
  \<open>getOutputPrimary\<close>. \<open>res->outputs[0]\<close> is read without a look at
  \<open>noutput\<close>; \<open>None\<close> is that read on an empty array.
\<close>

definition getOutputPrimary :: "XRandR \<Rightarrow> Window \<Rightarrow> XRRScreenResources \<Rightarrow> RROutput option" where
  "getOutputPrimary rr rootWindow res =
     (let output = XRRGetOutputPrimary rr rootWindow in
      if output = 0 then (case outputs res of [] \<Rightarrow> None | first # _ \<Rightarrow> Some first)
      else Some output)"



text \<open>\<open>resetVideoMode\<close>; the window object is not written.\<close>

definition resetVideoMode :: "XProperties \<Rightarrow> XRandR \<Rightarrow> WindowImplX11 \<Rightarrow> World \<Rightarrow> World option" where
  "resetVideoMode srv rr w X =
     (if fullscreenWindow X = Some (this w) then
        (case checkXRandR rr X of (supported, X1) \<Rightarrow>
           if supported then
             (case XRRGetScreenResources rr (DefaultRootWindow srv) of
                None \<Rightarrow> Some (err ''Failed to get the current screen resources to reset the video mode'' X1)
              | Some res \<Rightarrow>
                  (case XRRGetCrtcInfo rr (m_oldRRCrtc w) of
                     None \<Rightarrow> Some (err ''Failed to get crtc info to reset the video mode'' X1)
                   | Some crtcInfo \<Rightarrow>
                       (case getOutputPrimary rr (DefaultRootWindow srv) res of
                          None \<Rightarrow> None
                        | Some output \<Rightarrow>
                            Some ((request (XRRSetCrtcConfig (m_oldRRCrtc w) (crtc_x crtcInfo)
                                             (crtc_y crtcInfo) (m_oldVideoMode w) (rotation crtcInfo) output) X1)
                                    \<lparr>fullscreenWindow := None\<rparr>))))
           else Some (X1\<lparr>fullscreenWindow := None\<rparr>))
      else Some X)"

definition setMouseCursorVisible :: "bool \<Rightarrow> WindowImplX11 \<Rightarrow> World \<Rightarrow> World" where
  "setMouseCursorVisible visible w X =
     request (XDefineCursor (m_window w) (if visible then m_lastCursor w else m_hiddenCursor w)) X"

definition cleanup :: "XProperties \<Rightarrow> XRandR \<Rightarrow> WindowImplX11 \<Rightarrow> World \<Rightarrow> World option" where
  "cleanup srv rr w X =
     (case resetVideoMode srv rr w X of
        None \<Rightarrow> None
      | Some X1 \<Rightarrow> Some (setMouseCursorVisible True w X1))"





section \<open>processEvent: client messages and drag and drop\<close>





text \<open>
  The branch \<open>case ClientMessage:\<close> of \<open>processEvent\<close>, one definition for each
  of its \<open>if\<close> blocks, in the order of the source. The messages built in a local
  \<open>XEvent message\<close> list in \<open>cm_data\<close> the longs that the code assigns.
\<close>








section \<open>Music: streaming from a sound file\<close>

type_synonym Int16 = "16 word"

text \<open>
  The sound file \<open>m_file\<close> is a collaborator: its state is some type \<open>'f\<close>, and
  what \<open>Music\<close> calls on it is given by these operations. \<open>fileRead f maxCount\<close>
  is \<open>read(samples, maxCount)\<close>: the samples it writes to the front of the buffer
  (their number is the returned count) and the file afterwards.
\<close>

record 'f SoundFile =
  fileRead :: "'f \<Rightarrow> nat \<Rightarrow> Int16 list \<times> 'f"
  getSampleOffset :: "'f \<Rightarrow> 64 word"
  getSampleCount :: "'f \<Rightarrow> 64 word"
  getSampleRate :: "'f \<Rightarrow> cuint"
  getChannelCount :: "'f \<Rightarrow> cuint"

record 'f Music =
  m_file :: 'f
  m_samples :: "Int16 list"

text \<open>
  \<open>SoundStream::Chunk\<close>: \<open>samples\<close> is what the pointer refers to (the internal
  buffer), \<open>sampleCount\<close> the number of samples to take from it.
\<close>

record Chunk =
  samples :: "Int16 list"
  sampleCount :: nat

text \<open>\<open>std::vector::resize\<close>: cut, or fill up with zeros.\<close>

definition resize :: "nat \<Rightarrow> Int16 list \<Rightarrow> Int16 list" where
  "resize n xs = take n xs @ replicate (n - length xs) 0"

text \<open>
  \<open>Music::initialize\<close>: the buffer gets \<open>getSampleRate() * getChannelCount()\<close>
  elements, a product of two \<open>unsigned int\<close>. The call of
  \<open>SoundStream::initialize\<close> sets up the base class and is left out.
\<close>

definition initialize :: "'f SoundFile \<Rightarrow> 'f Music \<Rightarrow> 'f Music" where
  "initialize file m =
     m\<lparr>m_samples :=
         resize (unat (getSampleRate file (m_file m) * getChannelCount file (m_file m))) (m_samples m)\<rparr>"

text \<open>\<open>Music::onGetData\<close>: the returned \<open>bool\<close>, the chunk, and the object
  afterwards.\<close>

definition onGetData :: "'f SoundFile \<Rightarrow> 'f Music \<Rightarrow> bool \<times> Chunk \<times> 'f Music" where
  "onGetData file m =
     (case fileRead file (m_file m) (length (m_samples m)) of (got, file1) \<Rightarrow>
        let buffer = got @ drop (length got) (m_samples m);
            m1 = m\<lparr>m_file := file1, m_samples := buffer\<rparr>;
            chunk = \<lparr>samples = buffer, sampleCount = length got\<rparr>
        in (sampleCount chunk \<noteq> 0 \<and> getSampleOffset file file1 < getSampleCount file file1,
            chunk, m1))"

section \<open>Concrete inputs\<close>

text \<open>Inputs at which the theorems below are instantiated.\<close>

definition exampleWindow :: WindowImplX11 where
  "exampleWindow = \<lparr>this = 1, m_window = 77, m_screen = 0, m_keyRepeat = True,
     m_fullscreen = False, m_cursorGrabbed = False, m_oldVideoMode = 0, m_oldRRCrtc = 0,
     m_dropSource = 0, m_acceptedFileType = 0, m_lastInputTime = 0,
     m_lastCursor = 0, m_hiddenCursor = 0, m_events = []\<rparr>"

definition emptyWorld :: World where
  "emptyWorld = \<lparr>fullscreenWindow = None, checked = False, ewmhSupportedFlag = False,
     windowManagerName = [], netWmPingStatic = None, requests = [], errs = []\<rparr>"

definition thirdGrabSucceeds :: "nat \<Rightarrow> cint" where
  "thirdGrabSucceeds trial = (if trial = 2 then 0 else 1)"


definition keyEvent :: "cint \<Rightarrow> Window \<Rightarrow> cuint \<Rightarrow> Time \<Rightarrow> XEvent" where
  "keyEvent ty win keycode t =
     \<lparr>ev_type = ty, xany_window = win, xkey_keycode = keycode, xkey_time = t,
      xclient_message_type = 0, xclient_format = 0, xclient_data_l = []\<rparr>"

text \<open>
  A release and a press of key 38 for window 77, with a pointer motion event (type 6)
  of window 99 queued between them.
\<close>

definition interleavedQueue :: "XEvent list" where
  "interleavedQueue =
     [keyEvent KeyRelease 77 38 1000, keyEvent 6 99 0 1000, keyEvent KeyPress 77 38 1000]"

text \<open>
  A repeat of key 38, an event of another window, then a release of key 40 followed
  by a press of key 41.
\<close>

definition repeatQueue :: "XEvent list" where
  "repeatQueue =
     [keyEvent KeyRelease 77 38 1000, keyEvent KeyPress 77 38 1001, keyEvent 6 99 0 1500,
      keyEvent KeyRelease 77 40 2000, keyEvent KeyPress 77 41 2000]"


text \<open>
  A server with a conforming EWMH window manager (window 50) of the given name, with or
  without \<open>_NET_FRAME_EXTENTS\<close> (left 4, top 30); a server without any EWMH atom;
  and a window tree in which window 77 sits in the frame window 60 below the root 1.
\<close>

definition noProperty :: XProperty where
  "noProperty = \<lparr>prop_result = 0, actualType = 0, actualFormat = 0, numBytes = 0, prop_data = None\<rparr>"

definition wmServer :: "string \<Rightarrow> bool \<Rightarrow> XProperties" where
  "wmServer name withExtents =
     \<lparr>getAtom = (\<lambda>atomName onlyIfExists.
          if atomName = ''_NET_SUPPORTING_WM_CHECK'' then 400
          else if atomName = ''_NET_SUPPORTED'' then 401
          else if atomName = ''_NET_WM_NAME'' then 402
          else if atomName = ''UTF8_STRING'' then 403
          else if atomName = ''_NET_FRAME_EXTENTS'' \<and> withExtents then 404
          else if onlyIfExists then 0 else 499),
      DefaultRootWindow = 1,
      XGetWindowProperty = (\<lambda>win property len ty.
          if property = 400 \<and> (win = 1 \<or> win = 50)
          then \<lparr>prop_result = 0, actualType = 33, actualFormat = 32, numBytes = 0, prop_data = Some [50]\<rparr>
          else if property = 402 \<and> win = 50
          then \<lparr>prop_result = 0, actualType = 403, actualFormat = 8, numBytes = 0, prop_data = Some [105, 51]\<rparr>
          else if property = 404
          then \<lparr>prop_result = 0, actualType = 6, actualFormat = 32, numBytes = 0, prop_data = Some [4, 4, 30, 4]\<rparr>
          else noProperty),
      fromUtf8 = (\<lambda>bytes. name)\<rparr>"

definition bareServer :: XProperties where
  "bareServer =
     \<lparr>getAtom = (\<lambda>atomName onlyIfExists. if onlyIfExists then 0 else 499),
      DefaultRootWindow = 1,
      XGetWindowProperty = (\<lambda>win property len ty. noProperty),
      fromUtf8 = (\<lambda>bytes. [])\<rparr>"

definition exampleTree :: XWindowTree where
  "exampleTree =
     \<lparr>XTranslateCoordinates = (\<lambda>win dest. if win = 77 \<and> dest = 1 then Some (104, 130) else None),
      XQueryTree = (\<lambda>win. if win = 77 then Some 60 else if win = 60 then Some 1
                          else if win = 1 then Some 0 else None),
      XGetGeometry = (\<lambda>win. if win = 60 then Some (100, 100) else if win = 77 then Some (4, 30) else None)\<rparr>"


text \<open>
  A second SFML window (handle 88), and a server on which windows 77 and 88 are viewable,
  have no WM hints yet, and the given window has the input focus.
\<close>

definition otherWindow :: WindowImplX11 where
  "otherWindow = exampleWindow\<lparr>this := 2, m_window := 88\<rparr>"

definition focusOn :: "Window \<Rightarrow> XFocus" where
  "focusOn focused =
     \<lparr>XGetInputFocus = focused,
      XGetWindowAttributes = (\<lambda>win. if win = 77 \<or> win = 88 then Some 2 else None),
      XGetWMHints = (\<lambda>win. None),
      XSendEventStatus = 1\<rparr>"


text \<open>
  A server with XRandR: one output (9) on crtc 5, which shows mode 71 (1920 x 1080, the
  desktop mode) with the given rotation; mode 72 is 800 x 600. The same server when the
  screen resources cannot be read. The window and the world after window 1 switched
  to mode 72.
\<close>

definition exampleResources :: XRRScreenResources where
  "exampleResources =
     \<lparr>modes = [\<lparr>mode_id = 71, mode_width = 1920, mode_height = 1080\<rparr>,
               \<lparr>mode_id = 72, mode_width = 800, mode_height = 600\<rparr>],
      outputs = [9]\<rparr>"

definition randrServer :: "cuint \<Rightarrow> XRandR" where
  "randrServer rot =
     \<lparr>desktopMode = \<lparr>mode_size = (1920, 1080), bitsPerPixel = 32\<rparr>,
      XQueryExtension = (\<lambda>name. name = ''RANDR''),
      RootWindow = (\<lambda>screen. 1),
      XRRGetScreenResources = (\<lambda>root. if root = 1 then Some exampleResources else None),
      XRRGetOutputPrimary = (\<lambda>root. 0),
      XRRGetOutputInfo = (\<lambda>output. if output = 9 then Some \<lparr>connection = 0, crtc = 5\<rparr> else None),
      XRRGetCrtcInfo = (\<lambda>c. if c = 5
                              then Some \<lparr>crtc_x = 0, crtc_y = 0, crtc_mode = 71, rotation = rot\<rparr>
                              else None),
      XRRSetCrtcConfigStatus = 0\<rparr>"



definition noResourcesServer :: XRandR where
  "noResourcesServer = (randrServer 1)\<lparr>XRRGetScreenResources := (\<lambda>root. None)\<rparr>"


definition fullscreenExample :: WindowImplX11 where
  "fullscreenExample = exampleWindow\<lparr>m_oldVideoMode := 71, m_oldRRCrtc := 5\<rparr>"

definition fullscreenWorld :: World where
  "fullscreenWorld =
     emptyWorld\<lparr>requests := [XRRSetCrtcConfig 5 0 0 72 1 9], fullscreenWindow := Some 1\<rparr>"






text \<open>
  A sound file of five samples at 2 samples per second, one channel; its state is the
  read offset. A \<open>Music\<close> object on it with an empty buffer.
\<close>

definition fiveSamples :: "nat SoundFile" where
  "fiveSamples =
     \<lparr>fileRead = (\<lambda>offset maxCount.
          (take maxCount (drop offset [1, 2, 3, 4, 5]), min 5 (offset + maxCount))),
      getSampleOffset = (\<lambda>offset. of_nat offset),
      getSampleCount = (\<lambda>offset. 5),
      getSampleRate = (\<lambda>offset. 2),
      getChannelCount = (\<lambda>offset. 1)\<rparr>"

definition musicAt :: "nat \<Rightarrow> nat Music" where
  "musicAt offset = \<lparr>m_file = offset, m_samples = []\<rparr>"

section \<open>Properties\<close>

subsection \<open>processEvents\<close>

lemma XCheckIfEvent_None: "XCheckIfEvent p q = None \<Longrightarrow> filter p q = []"
  by (induction q) (auto split: if_splits option.splits)

lemma XCheckIfEvent_Some:
  "XCheckIfEvent p q = Some (e, r) \<Longrightarrow>
   filter p q = e # filter p r \<and> filter (\<lambda>x. \<not> p x) r = filter (\<lambda>x. \<not> p x) q \<and>
   set r \<subseteq> set q \<and> e \<in> set q"
  by (induction q arbitrary: e r) (auto split: if_splits option.splits)

lemma time_window_unat:
  fixes t t' :: Time
  assumes "t \<noteq> - 1"
  shows "(t \<le> t' \<and> t' \<le> t + 1) = (unat t \<le> unat t' \<and> unat t' \<le> unat t + 1)"
proof -
  have "t + 1 \<noteq> 0" using assms
    by (metis add.commute add_eq_0_iff2 minus_equation_iff)
  then have "unat (t + 1) = unat t + 1"
    by (metis Suc_eq_plus1 add.commute unatSuc)
  then show ?thesis by (simp add: word_le_nat_alt)
qed

lemma forwardedSpec_not_release:
  "ev_type e \<noteq> KeyRelease \<Longrightarrow> forwardedSpec kr (e # es) = e # forwardedSpec kr es"
  by (cases es) (simp_all add: keyRepeatPair_def)


lemma keyRepeatLoop_spec:
  assumes "keyRepeatLoop a w event queue fwd = (b, ev1, q1, fwd1)"
    and "timesBelowMax (event # queue)"
  shows "fwd1 @ (if b then [ev1] else []) @
           forwardedSpec (m_keyRepeat w) (filter (\<lambda>e. checkEvent a e (m_window w)) q1) =
         fwd @ forwardedSpec (m_keyRepeat w) (event # filter (\<lambda>e. checkEvent a e (m_window w)) queue) \<and>
         filter (\<lambda>e. \<not> checkEvent a e (m_window w)) q1 =
           filter (\<lambda>e. \<not> checkEvent a e (m_window w)) queue \<and>
         set q1 \<subseteq> set queue"
  using assms
proof (induction a w event queue fwd rule: keyRepeatLoop.induct)
  case (1 a w event queue fwd)
  let ?p = "\<lambda>e. checkEvent a e (m_window w)"
  show ?case
  proof (cases "ev_type event = KeyRelease")
    case False
    with "1.prems"(1) have "b" "ev1 = event" "q1 = queue" "fwd1 = fwd"
      by (subst (asm) keyRepeatLoop.simps, simp)+
    with False show ?thesis by (simp add: forwardedSpec_not_release)
  next
    case rel: True
    show ?thesis
    proof (cases "XCheckIfEvent ?p queue")
      case None
      with rel "1.prems"(1) have r: "b" "ev1 = event" "q1 = queue" "fwd1 = fwd"
        by (subst (asm) keyRepeatLoop.simps, simp)+
      from None have "filter ?p queue = []" by (rule XCheckIfEvent_None)
      with r show ?thesis by simp
    next
      case (Some found)
      obtain nextEvent rest where f: "found = (nextEvent, rest)" by (cases found)
      note S = XCheckIfEvent_Some[OF Some[unfolded f]]
      have tm: "xkey_time event \<noteq> - 1"
        using "1.prems"(2) rel by (simp add: timesBelowMax_def)
      let ?pair = "ev_type nextEvent = KeyPress \<and> xkey_keycode nextEvent = xkey_keycode event \<and>
                xkey_time event \<le> xkey_time nextEvent \<and>
                xkey_time nextEvent \<le> xkey_time event + 1"
      have pair_eq: "?pair = keyRepeatPair event nextEvent"
        using rel time_window_unat[OF tm, of "xkey_time nextEvent"]
        by (auto simp: keyRepeatPair_def)
      show ?thesis
      proof (cases ?pair)
        case True
        with rel Some f "1.prems"(1)
        have r: "b = m_keyRepeat w" "m_keyRepeat w \<longrightarrow> ev1 = nextEvent" "q1 = rest" "fwd1 = fwd"
          by (subst (asm) keyRepeatLoop.simps, simp split: if_splits)+
        from True pair_eq have kp: "keyRepeatPair event nextEvent" by simp
        show ?thesis using r S kp by auto
      next
        case False
        with rel Some f "1.prems"(1)
        have rec: "keyRepeatLoop a w nextEvent rest (fwd @ [event]) = (b, ev1, q1, fwd1)"
          by (subst (asm) keyRepeatLoop.simps) simp
        have tb: "timesBelowMax (nextEvent # rest)"
          using "1.prems"(2) S by (auto simp: timesBelowMax_def)
        from False pair_eq have nkp: "\<not> keyRepeatPair event nextEvent" by simp
        note IH = "1.IH"[OF rel Some[unfolded f] refl False rec tb]
        show ?thesis using IH S nkp by auto
      qed
    qed
  qed
qed

lemma processEventsLoop_spec:
  assumes "timesBelowMax queue"
  shows "processEventsLoop a w queue fwd =
     (fwd @ forwardedSpec (m_keyRepeat w) (filter (\<lambda>e. checkEvent a e (m_window w)) queue),
      filter (\<lambda>e. \<not> checkEvent a e (m_window w)) queue)"
  using assms
proof (induction a w queue fwd rule: processEventsLoop.induct)
  case (1 a w queue fwd)
  let ?p = "\<lambda>e. checkEvent a e (m_window w)"
  show ?case
  proof (cases "XCheckIfEvent ?p queue")
    case None
    then have "filter ?p queue = []" by (rule XCheckIfEvent_None)
    moreover from this have "filter (\<lambda>e. \<not> ?p e) queue = queue"
      by (simp add: filter_empty_conv)
    ultimately show ?thesis using None
      by (subst processEventsLoop.simps) simp
  next
    case (Some found)
    obtain event rest where f: "found = (event, rest)" by (cases found)
    note S = XCheckIfEvent_Some[OF Some[unfolded f]]
    obtain b ev1 q2 fwd1 where k: "keyRepeatLoop a w event rest fwd = (b, ev1, q2, fwd1)"
      by (cases "keyRepeatLoop a w event rest fwd") auto
    have tb: "timesBelowMax (event # rest)"
      using "1.prems" S by (auto simp: timesBelowMax_def)
    note K = keyRepeatLoop_spec[OF k tb]
    have tb2: "timesBelowMax q2" using K "1.prems" S by (auto simp: timesBelowMax_def)
    note IH = "1.IH"[OF Some[unfolded f] refl k[symmetric] refl refl tb2]
    have "processEventsLoop a w queue fwd =
          processEventsLoop a w q2 (if b then fwd1 @ [ev1] else fwd1)"
      using Some f k by (subst processEventsLoop.simps) simp
    then show ?thesis using IH K S by (auto split: if_splits)
  qed
qed

text \<open>
  C1 as stated, with the pair taken from neighbours in the native queue, fails. The
  window-filtered view is what the loop works on: with an event of another window
  between a release and its repeat press, the release is dropped although the two are not
  neighbours in the native queue.
\<close>

theorem processEvents_native_neighbours_counterexample:
  "fst (processEvents 300 exampleWindow interleavedQueue) = [keyEvent KeyPress 77 38 1000] \<and>
   forwardedNativeNeighbours (m_keyRepeat exampleWindow) (matchesWindow 300 exampleWindow)
     interleavedQueue = [keyEvent KeyRelease 77 38 1000, keyEvent KeyPress 77 38 1000] \<and>
   fst (processEvents 300 exampleWindow interleavedQueue) \<noteq>
     forwardedNativeNeighbours (m_keyRepeat exampleWindow) (matchesWindow 300 exampleWindow)
       interleavedQueue"
  by code_simp

text \<open>
  At the largest timestamp \<open>event.xkey.time + 1\<close> wraps to 0 and the pair is not
  recognised: both events are forwarded.
\<close>

lemma processEvents_time_wraps:
  "processEvents 300 exampleWindow
     [keyEvent KeyRelease 77 38 (- 1), keyEvent KeyPress 77 38 (- 1)] =
   ([keyEvent KeyRelease 77 38 (- 1), keyEvent KeyPress 77 38 (- 1)], [])"
  by code_simp

text \<open>
  C1 (amended). Among the queued events that \<open>checkEvent\<close> accepts for the window,
  taken in queue order, a \<open>KeyRelease\<close> directly followed by a \<open>KeyPress\<close> with the
  same keycode and a timestamp at most 1 ms later is a key-repeat pair: \<open>processEvents\<close>
  forwards only the \<open>KeyPress\<close> when key repeat is enabled and neither event when it
  was disabled by \<open>setKeyRepeatEnabled(false)\<close>; every other accepted event is
  forwarded in queue order, and the events not accepted stay queued. This holds when no
  queued \<open>KeyRelease\<close> carries the largest \<open>Time\<close> value.
\<close>

theorem processEvents_key_repeat:
  assumes "\<forall>e\<in>set queue. ev_type e = KeyRelease \<longrightarrow> xkey_time e \<noteq> - 1"
  shows "processEvents wmProtocols (setKeyRepeatEnabled enabled w) queue =
     (forwardedSpec enabled (filter (matchesWindow wmProtocols w) queue),
      filter (\<lambda>e. \<not> matchesWindow wmProtocols w e) queue)"
proof -
  have "timesBelowMax queue" using assms by (simp add: timesBelowMax_def)
  moreover have "matchesWindow wmProtocols w = (\<lambda>e. checkEvent wmProtocols e (m_window w))"
    by (rule ext) (simp add: matchesWindow_def)
  ultimately show ?thesis
    using processEventsLoop_spec[of queue wmProtocols "setKeyRepeatEnabled enabled w" "[]"]
    by (simp add: processEvents_def setKeyRepeatEnabled_def)
qed

theorem processEvents_key_repeat_witness:
  "processEvents 300 (setKeyRepeatEnabled True exampleWindow) repeatQueue =
     ([keyEvent KeyPress 77 38 1001, keyEvent KeyRelease 77 40 2000, keyEvent KeyPress 77 41 2000],
      [keyEvent 6 99 0 1500]) \<and>
   processEvents 300 (setKeyRepeatEnabled False exampleWindow) repeatQueue =
     ([keyEvent KeyRelease 77 40 2000, keyEvent KeyPress 77 41 2000],
      [keyEvent 6 99 0 1500])"
proof -
  have h: "\<forall>e\<in>set repeatQueue. ev_type e = KeyRelease \<longrightarrow> xkey_time e \<noteq> - 1"
    by (simp add: repeatQueue_def keyEvent_def)
  have on: "forwardedSpec True (filter (matchesWindow 300 exampleWindow) repeatQueue) =
      [keyEvent KeyPress 77 38 1001, keyEvent KeyRelease 77 40 2000, keyEvent KeyPress 77 41 2000]"
    by code_simp
  have off: "forwardedSpec False (filter (matchesWindow 300 exampleWindow) repeatQueue) =
      [keyEvent KeyRelease 77 40 2000, keyEvent KeyPress 77 41 2000]"
    by code_simp
  have rest: "filter (\<lambda>e. \<not> matchesWindow 300 exampleWindow e) repeatQueue = [keyEvent 6 99 0 1500]"
    by code_simp
  show ?thesis
    using processEvents_key_repeat[OF h, of 300 True exampleWindow]
      processEvents_key_repeat[OF h, of 300 False exampleWindow] on off rest
    by simp
qed

subsection \<open>ewmhSupported\<close>

lemma single_item: "length xs = Suc 0 \<Longrightarrow> xs = [xs ! 0]"
  by (cases xs) auto

lemma ewmhSupported_checked: "checked (snd (ewmhSupported srv X))"
  by (simp add: ewmhSupported_def Let_def)

lemma ewmhSupported_flag:
  "\<not> checked X \<longrightarrow> \<not> ewmhSupportedFlag X \<Longrightarrow>
   ewmhSupportedFlag (snd (ewmhSupported srv X)) = fst (ewmhSupported srv X)"
  by (simp add: ewmhSupported_def Let_def)

lemma ewmhSupported_again:
  assumes "\<not> checked X \<longrightarrow> \<not> ewmhSupportedFlag X"
  shows "ewmhSupported srv' (snd (ewmhSupported srv X)) = ewmhSupported srv X"
proof -
  have "ewmhSupported srv' (snd (ewmhSupported srv X)) =
        (ewmhSupportedFlag (snd (ewmhSupported srv X)), snd (ewmhSupported srv X))"
    using ewmhSupported_checked[of srv X] by (subst ewmhSupported_def) simp
  then show ?thesis using ewmhSupported_flag[OF assms, of srv] by simp
qed

lemma ewmhSupported_true:
  assumes "\<not> checked X" and "fst (ewmhSupported srv X)"
  shows "getAtom srv ''_NET_SUPPORTING_WM_CHECK'' True \<noteq> 0 \<and>
         getAtom srv ''_NET_SUPPORTED'' True \<noteq> 0 \<and>
         (\<exists>wm. wm \<noteq> 0 \<and>
            items (XGetWindowProperty srv (DefaultRootWindow srv)
                     (getAtom srv ''_NET_SUPPORTING_WM_CHECK'' True) 1 XA_WINDOW) = [wm] \<and>
            items (XGetWindowProperty srv wm
                     (getAtom srv ''_NET_SUPPORTING_WM_CHECK'' True) 1 XA_WINDOW) = [wm])"
proof -
  let ?a = "getAtom srv ''_NET_SUPPORTING_WM_CHECK'' True"
  let ?r1 = "XGetWindowProperty srv (DefaultRootWindow srv) ?a 1 XA_WINDOW"
  let ?wm = "items ?r1 ! 0"
  let ?r2 = "XGetWindowProperty srv ?wm ?a 1 XA_WINDOW"
  from assms have a: "?a \<noteq> 0" "getAtom srv ''_NET_SUPPORTED'' True \<noteq> 0"
    by (auto simp: ewmhSupported_def Let_def split: if_splits)
  from assms have n1: "numItems ?r1 = 1" and z: "?wm \<noteq> 0"
    by (auto simp: ewmhSupported_def Let_def split: if_splits)
  from assms have n2: "numItems ?r2 = 1" and same: "items ?r2 ! 0 = ?wm"
    by (auto simp: ewmhSupported_def Let_def split: if_splits)
  have "items ?r1 = [?wm]" using n1 by (simp add: numItems_def single_item[symmetric])
  moreover have "items ?r2 = [?wm]"
    using n2 same single_item[of "items ?r2"] by (simp add: numItems_def)
  ultimately show ?thesis using a z by blast
qed

text \<open>
  C7. Starting from the initial statics, \<open>ewmhSupported\<close> returns true only when the
  atoms \<open>_NET_SUPPORTING_WM_CHECK\<close> and \<open>_NET_SUPPORTED\<close> exist and the root
  window's \<open>_NET_SUPPORTING_WM_CHECK\<close> property names a window whose own property
  names that same window. The answer is computed once: every later call, whatever the
  server would say then, returns the same answer and leaves the state as it is.
\<close>

theorem ewmhSupported_once:
  assumes "\<not> checked X \<longrightarrow> \<not> ewmhSupportedFlag X"
  shows "(\<not> checked X \<and> fst (ewmhSupported srv X) \<longrightarrow>
            getAtom srv ''_NET_SUPPORTING_WM_CHECK'' True \<noteq> 0 \<and>
            getAtom srv ''_NET_SUPPORTED'' True \<noteq> 0 \<and>
            (\<exists>wm. wm \<noteq> 0 \<and>
               items (XGetWindowProperty srv (DefaultRootWindow srv)
                        (getAtom srv ''_NET_SUPPORTING_WM_CHECK'' True) 1 XA_WINDOW) = [wm] \<and>
               items (XGetWindowProperty srv wm
                        (getAtom srv ''_NET_SUPPORTING_WM_CHECK'' True) 1 XA_WINDOW) = [wm])) \<and>
         ewmhSupported srv' (snd (ewmhSupported srv X)) = ewmhSupported srv X"
  using ewmhSupported_true[of X srv] ewmhSupported_again[OF assms, of srv' srv] by blast

theorem ewmhSupported_once_witness:
  "fst (ewmhSupported (wmServer ''i3'' True) emptyWorld) \<and>
   ewmhSupported bareServer (snd (ewmhSupported (wmServer ''i3'' True) emptyWorld)) =
     (True, emptyWorld\<lparr>checked := True, ewmhSupportedFlag := True, windowManagerName := ''i3''\<rparr>) \<and>
   ewmhSupported (wmServer ''i3'' True) (snd (ewmhSupported bareServer emptyWorld)) =
     (False, emptyWorld\<lparr>checked := True\<rparr>)"
proof -
  have init: "\<not> checked emptyWorld \<longrightarrow> \<not> ewmhSupportedFlag emptyWorld"
    by (simp add: emptyWorld_def)
  have a: "ewmhSupported (wmServer ''i3'' True) emptyWorld =
     (True, emptyWorld\<lparr>checked := True, ewmhSupportedFlag := True, windowManagerName := ''i3''\<rparr>)"
    by code_simp
  have b: "ewmhSupported bareServer emptyWorld = (False, emptyWorld\<lparr>checked := True\<rparr>)"
    by code_simp
  show ?thesis
    using ewmhSupported_once[OF init, of "wmServer ''i3'' True" bareServer]
      ewmhSupported_once[OF init, of bareServer "wmServer ''i3'' True"] a b
    by simp
qed
subsection \<open>getPosition\<close>

lemma climbToRoot_reaches:
  "(\<forall>j<k. getParentWindow tree ((getParentWindow tree ^^ j) a) \<noteq> root) \<Longrightarrow>
   getParentWindow tree ((getParentWindow tree ^^ k) a) = root \<Longrightarrow>
   climbToRoot tree root a = Some ((getParentWindow tree ^^ k) a)"
proof (induction k arbitrary: a)
  case 0
  then show ?case by (subst climbToRoot.simps) simp
next
  case (Suc k)
  from Suc.prems(1) have ne: "getParentWindow tree a \<noteq> root" by force
  have "\<forall>j<k. getParentWindow tree ((getParentWindow tree ^^ j) (getParentWindow tree a)) \<noteq> root"
  proof (intro allI impI)
    fix j assume "j < k"
    then have "Suc j < Suc k" by simp
    with Suc.prems(1) have "getParentWindow tree ((getParentWindow tree ^^ Suc j) a) \<noteq> root" by blast
    then show "getParentWindow tree ((getParentWindow tree ^^ j) (getParentWindow tree a)) \<noteq> root"
      by (simp add: funpow_swap1)
  qed
  moreover have "getParentWindow tree ((getParentWindow tree ^^ k) (getParentWindow tree a)) = root"
    using Suc.prems(2) by (simp add: funpow_swap1)
  ultimately have "climbToRoot tree root (getParentWindow tree a) =
      Some ((getParentWindow tree ^^ k) (getParentWindow tree a))"
    by (rule Suc.IH)
  then show ?case using ne by (subst climbToRoot.simps) (simp add: funpow_swap1)
qed

lemma climbToRoot_Some_reaches:
  assumes "climbToRoot tree root a = Some y"
  shows "\<exists>k. getParentWindow tree ((getParentWindow tree ^^ k) a) = root"
proof (rule climbToRoot.raw_induct[where P = "\<lambda>tree root a y. \<exists>k. getParentWindow tree ((getParentWindow tree ^^ k) a) = root"], goal_cases)
  case (1 climb tree root a y)
  show ?case
  proof (cases "getParentWindow tree a \<noteq> root")
    case True
    with 1(2) have "climb tree root (getParentWindow tree a) = Some y" by simp
    from 1(1)[OF this]
    obtain k where "getParentWindow tree ((getParentWindow tree ^^ k) (getParentWindow tree a)) = root"
      by blast
    then have "getParentWindow tree ((getParentWindow tree ^^ Suc k) a) = root"
      by (simp add: funpow_swap1)
    then show ?thesis by blast
  next
    case False
    then have "getParentWindow tree ((getParentWindow tree ^^ 0) a) = root" by simp
    then show ?thesis by blast
  qed
qed (rule assms)

lemma getEWMHFrameExtents_eq:
  assumes "ewmhSupported srv X = (ewmh, X1)" and "\<not> checked X \<longrightarrow> \<not> ewmhSupportedFlag X"
  shows "getEWMHFrameExtents srv win (0, 0) X1 =
     (case (if ewmh then frameExtentsOf srv win else None) of
        Some (leftExtent, topExtent) \<Rightarrow> ((True, leftExtent, topExtent), X1)
      | None \<Rightarrow> ((False, 0, 0), X1))"
proof -
  have again: "ewmhSupported srv X1 = (ewmh, X1)"
    using ewmhSupported_again[OF assms(2), of srv srv] assms(1) by simp
  show ?thesis
    by (auto simp: getEWMHFrameExtents_def again frameExtentsOf_def Let_def numItems_def)
qed

lemma isWMAbsolutePositionGood_eq:
  assumes "ewmhSupported srv X = (ewmh, X1)"
  shows "isWMAbsolutePositionGood srv X =
     (ewmh \<and> windowManagerName X1 \<in> {''Enlightenment'', ''FVWM'', ''i3''}, X1)"
  using assms by (auto simp: isWMAbsolutePositionGood_def wmAbsPosGood_def)

lemma sint_narrow:
  fixes ext :: clong
  assumes "- (2^31) \<le> sint ext" "sint ext < 2^31"
  shows "sint (ucast ext :: cint) = sint ext"
proof -
  have "sint (ucast ext :: cint) = signed_take_bit 31 (uint ext)"
    by (simp add: sint_uint unsigned_ucast_eq take_bit_signed_take_bit signed_take_bit_take_bit)
  also have "\<dots> = signed_take_bit 31 (sint ext)"
    by (simp add: sint_uint signed_take_bit_signed_take_bit)
  also have "\<dots> = sint ext"
    using assms by (simp add: signed_take_bit_int_eq_self)
  finally show ?thesis .
qed

lemma frame_extent_subtraction:
  fixes xAbs :: cint and ext :: clong
  assumes "- (2^31) \<le> sint ext" "sint ext < 2^31"
    and "- (2^31) \<le> sint xAbs - sint ext" "sint xAbs - sint ext < 2^31"
  shows "sint (xAbs - ucast ext) = sint xAbs - sint ext"
proof -
  have "sint (xAbs - ucast ext) = signed_take_bit 31 (sint xAbs - sint (ucast ext :: cint))"
    by (simp add: sint_word_ariths word_size)
  also have "\<dots> = sint xAbs - sint ext"
    using assms by (simp add: sint_narrow signed_take_bit_int_eq_self)
  finally show ?thesis .
qed

text \<open>
  C3. \<open>getPosition\<close> uses exactly one of three strategies, in this order: when EWMH
  is supported and the window manager is Enlightenment, FVWM or i3, the absolute
  coordinates relative to the root; otherwise, when \<open>_NET_FRAME_EXTENTS\<close> is
  available, the absolute coordinates minus the left and top extents (in \<open>int\<close>
  arithmetic, see \<open>frame_extent_subtraction\<close>); otherwise the position relative to the
  root of the furthest ancestor below the root, which the climbing loop reaches whenever
  the root is among the window's ancestors.
\<close>

theorem getPosition_strategies:
  assumes "\<not> checked X \<longrightarrow> \<not> ewmhSupportedFlag X"
  shows
  "(let (ewmh, X1) = ewmhSupported srv X; pos = absolutePosition srv tree (m_window w) in
     getPosition srv tree w X =
      (if ewmh \<and> windowManagerName X1 \<in> {''Enlightenment'', ''FVWM'', ''i3''} then Some (pos, X1)
       else case (if ewmh then frameExtentsOf srv (m_window w) else None) of
          Some (leftExtent, topExtent) \<Rightarrow>
            Some ((fst pos - ucast leftExtent, snd pos - ucast topExtent), X1)
        | None \<Rightarrow>
            map_option (\<lambda>ancestor. (geometryPosition tree ancestor, X1))
              (climbToRoot tree (DefaultRootWindow srv) (m_window w)))) \<and>
   (\<forall>k. (\<forall>j<k. getParentWindow tree ((getParentWindow tree ^^ j) (m_window w)) \<noteq> DefaultRootWindow srv) \<and>
        getParentWindow tree ((getParentWindow tree ^^ k) (m_window w)) = DefaultRootWindow srv \<longrightarrow>
        climbToRoot tree (DefaultRootWindow srv) (m_window w) =
          Some ((getParentWindow tree ^^ k) (m_window w)))"
proof -
  obtain ewmh X1 where e: "ewmhSupported srv X = (ewmh, X1)"
    by (cases "ewmhSupported srv X") auto
  have again: "ewmhSupported srv X1 = (ewmh, X1)"
    using ewmhSupported_again[OF assms, of srv srv] e by simp
  have inv1: "\<not> checked X1 \<longrightarrow> \<not> ewmhSupportedFlag X1"
    using ewmhSupported_checked[of srv X] e by simp
  note G = isWMAbsolutePositionGood_eq[OF e]
  note F = getEWMHFrameExtents_eq[OF again inv1, of "m_window w"]
  have "getPosition srv tree w X =
      (if ewmh \<and> windowManagerName X1 \<in> {''Enlightenment'', ''FVWM'', ''i3''}
       then Some (absolutePosition srv tree (m_window w), X1)
       else case (if ewmh then frameExtentsOf srv (m_window w) else None) of
          Some (leftExtent, topExtent) \<Rightarrow>
            Some ((fst (absolutePosition srv tree (m_window w)) - ucast leftExtent,
                   snd (absolutePosition srv tree (m_window w)) - ucast topExtent), X1)
        | None \<Rightarrow>
            map_option (\<lambda>ancestor. (geometryPosition tree ancestor, X1))
              (climbToRoot tree (DefaultRootWindow srv) (m_window w)))"
    by (simp add: getPosition_def G F absolutePosition_def geometryPosition_def
          split: option.splits prod.splits)
  then show ?thesis using e climbToRoot_reaches[of _ tree "m_window w" "DefaultRootWindow srv"]
    by (simp add: Let_def)
qed


text \<open>
  Without that, the loop does not end: for a window the server does not know
  (\<open>XQueryTree\<close> fails, the parent stays 0) the root is never met.
\<close>

lemma climbToRoot_never_returns:
  "climbToRoot exampleTree 1 5 = None"
proof (cases "climbToRoot exampleTree 1 5")
  case None
  then show ?thesis .
next
  case (Some y)
  from climbToRoot_Some_reaches[OF Some]
  obtain k where k: "getParentWindow exampleTree ((getParentWindow exampleTree ^^ k) 5) = 1" by blast
  have gp: "getParentWindow exampleTree 5 = 0" "getParentWindow exampleTree 0 = 0"
    by (simp_all add: getParentWindow_def exampleTree_def)
  have p: "(getParentWindow exampleTree ^^ n) 5 = (if n = 0 then 5 else 0)" for n
    by (induction n) (simp_all add: gp)
  have "getParentWindow exampleTree ((getParentWindow exampleTree ^^ k) 5) = 0"
    unfolding p by (simp add: gp)
  with k show ?thesis by simp
qed

theorem getPosition_strategies_witness:
  "getPosition (wmServer ''i3'' True) exampleTree exampleWindow emptyWorld =
     Some ((104, 130),
           emptyWorld\<lparr>checked := True, ewmhSupportedFlag := True, windowManagerName := ''i3''\<rparr>) \<and>
   getPosition (wmServer ''Mutter'' True) exampleTree exampleWindow emptyWorld =
     Some ((100, 100),
           emptyWorld\<lparr>checked := True, ewmhSupportedFlag := True, windowManagerName := ''Mutter''\<rparr>) \<and>
   getPosition bareServer exampleTree exampleWindow emptyWorld =
     Some ((100, 100), emptyWorld\<lparr>checked := True\<rparr>) \<and>
   climbToRoot exampleTree 1 77 = Some 60"
proof -
  have init: "\<not> checked emptyWorld \<longrightarrow> \<not> ewmhSupportedFlag emptyWorld"
    by (simp add: emptyWorld_def)
  have a: "ewmhSupported (wmServer ''i3'' True) emptyWorld =
     (True, emptyWorld\<lparr>checked := True, ewmhSupportedFlag := True, windowManagerName := ''i3''\<rparr>)"
    by code_simp
  have b: "ewmhSupported (wmServer ''Mutter'' True) emptyWorld =
     (True, emptyWorld\<lparr>checked := True, ewmhSupportedFlag := True, windowManagerName := ''Mutter''\<rparr>)"
    by code_simp
  have c: "ewmhSupported bareServer emptyWorld = (False, emptyWorld\<lparr>checked := True\<rparr>)"
    by code_simp
  have pos: "absolutePosition srv exampleTree (m_window exampleWindow) =
      (if DefaultRootWindow srv = 1 then (104, 130) else (0, 0))" for srv
    by (simp add: absolutePosition_def exampleTree_def exampleWindow_def)
  have ext: "frameExtentsOf (wmServer ''Mutter'' True) (m_window exampleWindow) = Some (4, 30)"
    by code_simp
  have root: "DefaultRootWindow (wmServer name e) = 1" "DefaultRootWindow bareServer = 1" for name e
    by (simp_all add: wmServer_def bareServer_def)
  have par: "getParentWindow exampleTree (m_window exampleWindow) = 60"
       "getParentWindow exampleTree 60 = 1"
    by (simp_all add: getParentWindow_def exampleTree_def exampleWindow_def)
  have geo: "geometryPosition exampleTree 60 = (100, 100)"
    by (simp add: geometryPosition_def exampleTree_def)
  note T1 = getPosition_strategies[OF init, of "wmServer ''i3'' True" exampleTree exampleWindow]
  note T2 = getPosition_strategies[OF init, of "wmServer ''Mutter'' True" exampleTree exampleWindow]
  note T3 = getPosition_strategies[OF init, of bareServer exampleTree exampleWindow]
  have climb: "climbToRoot exampleTree 1 (m_window exampleWindow) = Some 60"
  proof -
    from T3 have "(\<forall>j<Suc 0. getParentWindow exampleTree ((getParentWindow exampleTree ^^ j) (m_window exampleWindow)) \<noteq> DefaultRootWindow bareServer) \<and>
        getParentWindow exampleTree ((getParentWindow exampleTree ^^ Suc 0) (m_window exampleWindow)) = DefaultRootWindow bareServer \<longrightarrow>
        climbToRoot exampleTree (DefaultRootWindow bareServer) (m_window exampleWindow) =
          Some ((getParentWindow exampleTree ^^ Suc 0) (m_window exampleWindow))"
      by blast
    then show ?thesis by (simp add: par root)
  qed
  have r1: "getPosition (wmServer ''i3'' True) exampleTree exampleWindow emptyWorld =
     Some ((104, 130),
           emptyWorld\<lparr>checked := True, ewmhSupportedFlag := True, windowManagerName := ''i3''\<rparr>)"
    using T1 by (simp add: a pos root)
  have r2: "getPosition (wmServer ''Mutter'' True) exampleTree exampleWindow emptyWorld =
     Some ((100, 100),
           emptyWorld\<lparr>checked := True, ewmhSupportedFlag := True, windowManagerName := ''Mutter''\<rparr>)"
    using T2 by (simp add: b pos root ext)
  have r3: "getPosition bareServer exampleTree exampleWindow emptyWorld =
     Some ((100, 100), emptyWorld\<lparr>checked := True\<rparr>)"
    using T3 by (simp add: c pos root climb geo)
  have m: "m_window exampleWindow = 77" by (simp add: exampleWindow_def)
  show ?thesis using r1 r2 r3 climb[unfolded m] by simp
qed
subsection \<open>requestFocus\<close>

lemma ewmhSupported_requests:
  "requests (snd (ewmhSupported srv X)) = requests X"
  by (simp add: ewmhSupported_def Let_def)

lemma requestFocus_grab:
  assumes "list_ex (hasFocus foc) allWindows" "XGetWindowAttributes foc (m_window w) = Some IsViewable"
  shows "\<exists>X'. requestFocus srv foc allWindows w X = Some X' \<and>
     requests X' = requests X @
       (if fst (ewmhSupported srv X) \<and> getAtom srv ''_NET_ACTIVE_WINDOW'' False \<noteq> 0
        then [XSendEvent (DefaultRootWindow srv)
                \<lparr>cm_window = m_window w, cm_message_type = getAtom srv ''_NET_ACTIVE_WINDOW'' False,
                 cm_format = 32, cm_data = [1, m_lastInputTime w, 0, 0, 0]\<rparr>]
        else [XRaiseWindow (m_window w), XSetInputFocus (m_window w)])"
proof -
  obtain s X1 where e: "ewmhSupported srv X = (s, X1)" by (cases "ewmhSupported srv X") auto
  have r: "requests X1 = requests X" using ewmhSupported_requests[of srv X] e by simp
  show ?thesis using assms
    by (auto simp: requestFocus_def grabFocus_def e r Let_def request_def err_def
        IsViewable_def IsUnmapped_def)
qed

lemma requestFocus_urgency:
  assumes "XGetWindowAttributes foc (m_window w) = Some ms"
    "\<not> (list_ex (hasFocus foc) allWindows \<and> ms = IsViewable)"
  shows "\<exists>hints. requestFocus srv foc allWindows w X =
            Some (request (XSetWMHints (m_window w) hints) X) \<and>
          flags hints AND XUrgencyHint = XUrgencyHint"
  using assms by (auto simp: requestFocus_def Let_def)

lemma requestFocus_no_attributes:
  assumes "XGetWindowAttributes foc (m_window w) = None"
  shows "requestFocus srv foc allWindows w X =
     Some (err ''Failed to check if window is viewable while requesting focus'' X)"
  using assms by (simp add: requestFocus_def)

text \<open>
  C4. \<open>requestFocus\<close> always returns. It issues a request that takes the focus
  (raising the window and setting the input focus, or the \<open>_NET_ACTIVE_WINDOW\<close>
  message under EWMH) exactly when some window of the global list has the input focus and
  this window is viewable. When the attributes cannot be read it issues no request at all;
  when they can be read and the condition fails, its only request sets the window's WM
  hints with \<open>XUrgencyHint\<close> in the flags.
\<close>

theorem requestFocus_steals_or_flags:
  "\<exists>X' new. requestFocus srv foc allWindows w X = Some X' \<and> requests X' = requests X @ new \<and>
     ((\<exists>r\<in>set new. takesFocus r) \<longleftrightarrow>
        (\<exists>v\<in>set allWindows. hasFocus foc v) \<and>
        XGetWindowAttributes foc (m_window w) = Some IsViewable) \<and>
     (XGetWindowAttributes foc (m_window w) = None \<longrightarrow> new = []) \<and>
     (\<forall>ms. XGetWindowAttributes foc (m_window w) = Some ms \<and>
           \<not> ((\<exists>v\<in>set allWindows. hasFocus foc v) \<and> ms = IsViewable) \<longrightarrow>
           (\<exists>hints. new = [XSetWMHints (m_window w) hints] \<and>
                    flags hints AND XUrgencyHint = XUrgencyHint))"
proof (cases "XGetWindowAttributes foc (m_window w)")
  case None
  then show ?thesis
    using requestFocus_no_attributes[OF None, of srv allWindows X]
    by (auto simp: err_def)
next
  case (Some ms)
  show ?thesis
  proof (cases "list_ex (hasFocus foc) allWindows \<and> ms = IsViewable")
    case True
    then have a: "list_ex (hasFocus foc) allWindows"
      and b: "XGetWindowAttributes foc (m_window w) = Some IsViewable"
      using Some by simp_all
    from requestFocus_grab[OF a b, of srv X] obtain X' where
      x: "requestFocus srv foc allWindows w X = Some X'"
      and r: "requests X' = requests X @
       (if fst (ewmhSupported srv X) \<and> getAtom srv ''_NET_ACTIVE_WINDOW'' False \<noteq> 0
        then [XSendEvent (DefaultRootWindow srv)
                \<lparr>cm_window = m_window w, cm_message_type = getAtom srv ''_NET_ACTIVE_WINDOW'' False,
                 cm_format = 32, cm_data = [1, m_lastInputTime w, 0, 0, 0]\<rparr>]
        else [XRaiseWindow (m_window w), XSetInputFocus (m_window w)])"
      by blast
    show ?thesis
      using x r a b by (auto simp: list_ex_iff split: if_splits)
  next
    case False
    from requestFocus_urgency[OF Some False, of srv X] obtain hints where
      h: "requestFocus srv foc allWindows w X = Some (request (XSetWMHints (m_window w) hints) X)"
         "flags hints AND XUrgencyHint = XUrgencyHint"
      by blast
    show ?thesis
      using h Some False by (auto simp: request_def list_ex_iff)
  qed
qed

theorem requestFocus_steals_or_flags_witness:
  "hasFocus (focusOn 88) otherWindow \<and>
   XGetWindowAttributes (focusOn 88) (m_window exampleWindow) = Some IsViewable \<and>
   requestFocus bareServer (focusOn 88) [exampleWindow, otherWindow] exampleWindow emptyWorld =
     Some (emptyWorld\<lparr>checked := True, requests := [XRaiseWindow 77, XSetInputFocus 77]\<rparr>) \<and>
   requestFocus bareServer (focusOn 5) [exampleWindow, otherWindow] exampleWindow emptyWorld =
     Some (emptyWorld\<lparr>requests := [XSetWMHints 77 \<lparr>flags = 256\<rparr>]\<rparr>)"
proof -
  have "\<exists>X1. requestFocus bareServer (focusOn 88) [exampleWindow, otherWindow] exampleWindow emptyWorld = Some X1"
    using requestFocus_steals_or_flags[of bareServer "focusOn 88" "[exampleWindow, otherWindow]"
      exampleWindow emptyWorld]
    by - (erule exE, erule exE, erule conjE, rule exI, assumption)
  then obtain X1 where
    a: "requestFocus bareServer (focusOn 88) [exampleWindow, otherWindow] exampleWindow emptyWorld = Some X1" ..
  have "\<exists>X2. requestFocus bareServer (focusOn 5) [exampleWindow, otherWindow] exampleWindow emptyWorld = Some X2"
    using requestFocus_steals_or_flags[of bareServer "focusOn 5" "[exampleWindow, otherWindow]"
      exampleWindow emptyWorld]
    by - (erule exE, erule exE, erule conjE, rule exI, assumption)
  then obtain X2 where
    b: "requestFocus bareServer (focusOn 5) [exampleWindow, otherWindow] exampleWindow emptyWorld = Some X2" ..
  have c: "requestFocus bareServer (focusOn 88) [exampleWindow, otherWindow] exampleWindow emptyWorld =
     Some (emptyWorld\<lparr>checked := True, requests := [XRaiseWindow 77, XSetInputFocus 77]\<rparr>)"
    by code_simp
  have d: "requestFocus bareServer (focusOn 5) [exampleWindow, otherWindow] exampleWindow emptyWorld =
     Some (emptyWorld\<lparr>requests := [XSetWMHints 77 \<lparr>flags = 256\<rparr>]\<rparr>)"
    by code_simp
  have x1: "X1 = emptyWorld\<lparr>checked := True, requests := [XRaiseWindow 77, XSetInputFocus 77]\<rparr>"
    using a c by (simp only: option.inject)
  have x2: "X2 = emptyWorld\<lparr>requests := [XSetWMHints 77 \<lparr>flags = 256\<rparr>]\<rparr>"
    using b d by (simp only: option.inject)
  have e: "hasFocus (focusOn 88) otherWindow"
    by (simp add: hasFocus_def focusOn_def otherWindow_def)
  have f: "XGetWindowAttributes (focusOn 88) (m_window exampleWindow) = Some IsViewable"
    by (simp add: focusOn_def exampleWindow_def IsViewable_def)
  show ?thesis
    by (intro conjI e f a[unfolded x1] b[unfolded x2])
qed
subsection \<open>setVideoMode\<close>



lemma checkXRandR_fields:
  "fst (checkXRandR rr X) = XQueryExtension rr ''RANDR''"
  "requests (snd (checkXRandR rr X)) = requests X"
  "fullscreenWindow (snd (checkXRandR rr X)) = fullscreenWindow X"
  "(snd (checkXRandR rr X))\<lparr>errs := e\<rparr> = X\<lparr>errs := e\<rparr>"
  by (simp_all add: checkXRandR_def err_def)








subsection \<open>resetVideoMode\<close>

text \<open>
  What holds of \<open>resetVideoMode\<close>: it does nothing for a window that is not the
  recorded fullscreen window; whenever it restores the saved mode it also clears the
  record; and a second call that gets the same answers from the server changes neither
  the requests nor the record.
\<close>

lemma resetVideoMode_other_window:
  "fullscreenWindow X \<noteq> Some (this w) \<Longrightarrow> resetVideoMode srv rr w X = Some X"
  by (simp add: resetVideoMode_def)

lemma resetVideoMode_restore_clears:
  assumes "resetVideoMode srv rr w X = Some X'" "requests X' \<noteq> requests X"
  shows "fullscreenWindow X = Some (this w) \<and> fullscreenWindow X' = None \<and>
         (\<exists>x y r out. requests X' =
            requests X @ [XRRSetCrtcConfig (m_oldRRCrtc w) x y (m_oldVideoMode w) r out])"
proof -
  obtain s X1 where c: "checkXRandR rr X = (s, X1)" by (cases "checkXRandR rr X") auto
  have r1: "requests X1 = requests X"
    using checkXRandR_fields(2)[where rr=rr and X=X] c by simp
  show ?thesis
    using assms
    by (auto simp: resetVideoMode_def c r1 request_def err_def split: if_splits option.splits)
qed

lemma resetVideoMode_twice_same_answers:
  assumes "resetVideoMode srv rr w X = Some X1"
  shows "\<exists>X2. resetVideoMode srv rr w X1 = Some X2 \<and> requests X2 = requests X1 \<and>
              fullscreenWindow X2 = fullscreenWindow X1"
proof -
  obtain s Y where c: "checkXRandR rr X = (s, Y)" by (cases "checkXRandR rr X") auto
  obtain s1 Y1 where c1: "checkXRandR rr X1 = (s1, Y1)" by (cases "checkXRandR rr X1") auto
  have f: "s = XQueryExtension rr ''RANDR''" "requests Y = requests X"
       "fullscreenWindow Y = fullscreenWindow X"
    using checkXRandR_fields(1,2,3)[where rr=rr and X=X] c by simp_all
  have f1: "s1 = XQueryExtension rr ''RANDR''" "requests Y1 = requests X1"
       "fullscreenWindow Y1 = fullscreenWindow X1"
    using checkXRandR_fields(1,2,3)[where rr=rr and X=X1] c1 by simp_all
  show ?thesis
  proof (cases "fullscreenWindow X1 = Some (this w)")
    case False
    then show ?thesis by (simp add: resetVideoMode_def)
  next
    case True
    with assms have early: "fullscreenWindow X = Some (this w) \<and> XQueryExtension rr ''RANDR'' \<and>
        (XRRGetScreenResources rr (DefaultRootWindow srv) = None \<or>
         XRRGetCrtcInfo rr (m_oldRRCrtc w) = None)"
      by (auto simp: resetVideoMode_def c f request_def err_def split: if_splits option.splits)
    then show ?thesis
      using True
      by (auto simp: resetVideoMode_def c1 f1 err_def split: option.splits)
  qed
qed

text \<open>
  C6. When the screen resources (or the crtc info) cannot be read, \<open>resetVideoMode\<close>
  returns before \<open>fullscreenWindow = nullptr\<close>: the record still names this window,
  and the next call, once the server answers, restores the video mode and clears the
  record. The path on which XRandR is absent does clear the record.
\<close>

theorem resetVideoMode_early_return_keeps_record:
  "resetVideoMode bareServer noResourcesServer fullscreenExample fullscreenWorld =
     Some (err ''Failed to get the current screen resources to reset the video mode'' fullscreenWorld) \<and>
   fullscreenWindow (err ''Failed to get the current screen resources to reset the video mode'' fullscreenWorld) =
     Some (this fullscreenExample) \<and>
   cleanup bareServer noResourcesServer fullscreenExample fullscreenWorld =
     Some (request (XDefineCursor 77 0)
             (err ''Failed to get the current screen resources to reset the video mode'' fullscreenWorld)) \<and>
   resetVideoMode bareServer (randrServer 1) fullscreenExample
       (err ''Failed to get the current screen resources to reset the video mode'' fullscreenWorld) =
     Some (emptyWorld\<lparr>requests := [XRRSetCrtcConfig 5 0 0 72 1 9, XRRSetCrtcConfig 5 0 0 71 1 9],
                      errs := [''Failed to get the current screen resources to reset the video mode'']\<rparr>)"
  by code_simp
subsection \<open>processEvent: XdndDrop\<close>













subsection \<open>Music::onGetData\<close>

lemma length_resize: "length (resize n xs) = n"
  by (simp add: resize_def)

lemma unat_product_le:
  fixes a b :: cuint
  shows "unat (a * b) \<le> unat a * unat b"
  by (simp add: unat_word_ariths)

text \<open>
  C8. After \<open>initialize\<close> has sized the buffer, \<open>onGetData\<close> reads at most one
  second of samples (sample rate times channel count) from the file into the buffer, hands
  out the buffer and the number of samples read as the chunk, and returns true exactly
  when that number is not zero and the file's sample offset is below its sample count.
  The file is taken to honour \<open>read\<close>'s bound: it never returns more samples than
  asked for.
\<close>

theorem onGetData_chunk:
  assumes "\<forall>f n. length (fst (fileRead file f n)) \<le> n"
  shows "(case onGetData file (initialize file m) of (returned, chunk, m1) \<Rightarrow>
      sampleCount chunk \<le> unat (getSampleRate file (m_file m)) * unat (getChannelCount file (m_file m)) \<and>
      samples chunk = m_samples m1 \<and>
      sampleCount chunk = length (fst (fileRead file (m_file m) (length (m_samples (initialize file m))))) \<and>
      take (sampleCount chunk) (samples chunk) =
        fst (fileRead file (m_file m) (length (m_samples (initialize file m)))) \<and>
      m_file m1 = snd (fileRead file (m_file m) (length (m_samples (initialize file m)))) \<and>
      returned = (sampleCount chunk \<noteq> 0 \<and>
              getSampleOffset file (m_file m1) < getSampleCount file (m_file m1)))"
proof -
  let ?n = "length (m_samples (initialize file m))"
  obtain got f1 where r: "fileRead file (m_file m) ?n = (got, f1)"
    by (cases "fileRead file (m_file m) ?n") auto
  have n: "?n = unat (getSampleRate file (m_file m) * getChannelCount file (m_file m))"
    by (simp add: initialize_def length_resize)
  have "length got \<le> ?n" using assms[rule_format, of "m_file m" ?n] r by simp
  then have le: "length got \<le> unat (getSampleRate file (m_file m)) * unat (getChannelCount file (m_file m))"
    using unat_product_le[of "getSampleRate file (m_file m)" "getChannelCount file (m_file m)"] n
    by linarith
  have f: "m_file (initialize file m) = m_file m" by (simp add: initialize_def)
  show ?thesis
    using le by (simp add: onGetData_def f r Let_def)
qed


theorem onGetData_chunk_witness:
  "onGetData fiveSamples (initialize fiveSamples (musicAt 0)) =
     (True, \<lparr>samples = [1, 2], sampleCount = 2\<rparr>, \<lparr>m_file = 2, m_samples = [1, 2]\<rparr>) \<and>
   onGetData fiveSamples (initialize fiveSamples (musicAt 4)) =
     (False, \<lparr>samples = [5, 0], sampleCount = 1\<rparr>, \<lparr>m_file = 5, m_samples = [5, 0]\<rparr>) \<and>
   onGetData fiveSamples (initialize fiveSamples (musicAt 5)) =
     (False, \<lparr>samples = [0, 0], sampleCount = 0\<rparr>, \<lparr>m_file = 5, m_samples = [0, 0]\<rparr>) \<and>
   sampleCount (fst (snd (onGetData fiveSamples (initialize fiveSamples (musicAt 0))))) \<le> 2"
proof -
  have h: "\<forall>f n. length (fst (fileRead fiveSamples f n)) \<le> n"
    by (simp add: fiveSamples_def)
  have a: "onGetData fiveSamples (initialize fiveSamples (musicAt 0)) =
     (True, \<lparr>samples = [1, 2], sampleCount = 2\<rparr>, \<lparr>m_file = 2, m_samples = [1, 2]\<rparr>)"
    by code_simp
  have b: "onGetData fiveSamples (initialize fiveSamples (musicAt 4)) =
     (False, \<lparr>samples = [5, 0], sampleCount = 1\<rparr>, \<lparr>m_file = 5, m_samples = [5, 0]\<rparr>)"
    by code_simp
  have c: "onGetData fiveSamples (initialize fiveSamples (musicAt 5)) =
     (False, \<lparr>samples = [0, 0], sampleCount = 0\<rparr>, \<lparr>m_file = 5, m_samples = [0, 0]\<rparr>)"
    by code_simp
  have rate: "unat (getSampleRate fiveSamples (m_file (musicAt 0))) *
              unat (getChannelCount fiveSamples (m_file (musicAt 0))) = 2"
    by (simp add: fiveSamples_def)
  have d: "sampleCount (fst (snd (onGetData fiveSamples (initialize fiveSamples (musicAt 0))))) \<le> 2"
    using onGetData_chunk[OF h, of "musicAt 0"] unfolding rate
    by (auto split: prod.splits)
  show ?thesis by (intro conjI a b c d)
qed
subsection \<open>getFullscreenModes\<close>

text \<open>
  C9. \<open>MonitorImplUIKit::getFullscreenModes\<close> returns exactly two video modes: the
  desktop mode first, then the mode with the desktop's width and height exchanged and the
  desktop's bits per pixel.
\<close>

theorem getFullscreenModes_two_modes:
  "length (getFullscreenModes desktop) = 2 \<and>
   getFullscreenModes desktop ! 0 = desktop \<and>
   fst (mode_size (getFullscreenModes desktop ! 1)) = snd (mode_size desktop) \<and>
   snd (mode_size (getFullscreenModes desktop ! 1)) = fst (mode_size desktop) \<and>
   bitsPerPixel (getFullscreenModes desktop ! 1) = bitsPerPixel desktop"
  by (simp add: getFullscreenModes_def)

subsection \<open>setMouseCursorGrabbed\<close>

lemma grabTrials_first_success:
  "trial \<le> i \<Longrightarrow> i < maxTrialsCount \<Longrightarrow> grabResult i = GrabSuccess \<Longrightarrow>
   (\<forall>j. trial \<le> j \<and> j < i \<longrightarrow> grabResult j \<noteq> GrabSuccess) \<Longrightarrow>
   grabTrials grabResult trial (w, X) =
     (w\<lparr>m_cursorGrabbed := True\<rparr>,
      X\<lparr>requests := requests X @ concat (replicate (i - trial) (grabRound w)) @ [XGrabPointer (m_window w)]\<rparr>)"
proof (induction "i - trial" arbitrary: trial X)
  case 0
  then have "trial = i" by simp
  with 0 show ?case by (subst grabTrials.simps) (simp add: request_def)
next
  case (Suc n)
  then have lt: "trial < i" and n: "n = i - (trial + 1)" by simp_all
  have nf: "grabResult trial \<noteq> GrabSuccess" using Suc.prems(4) lt by simp
  have IH: "grabTrials grabResult (trial + 1) (w, request (Sleep 50) (request (XGrabPointer (m_window w)) X)) =
     (w\<lparr>m_cursorGrabbed := True\<rparr>,
      (request (Sleep 50) (request (XGrabPointer (m_window w)) X))\<lparr>requests := requests (request (Sleep 50) (request (XGrabPointer (m_window w)) X)) @ concat (replicate (i - (trial + 1)) (grabRound w)) @ [XGrabPointer (m_window w)]\<rparr>)"
    using Suc.hyps(1)[OF n] lt Suc.prems by simp
  have rep: "replicate (i - trial) (grabRound w) = grabRound w # replicate (i - (trial + 1)) (grabRound w)"
    using lt by (metis Suc.hyps(2) n replicate_Suc)
  have step: "grabTrials grabResult trial (w, X) =
      grabTrials grabResult (trial + 1) (w, request (Sleep 50) (request (XGrabPointer (m_window w)) X))"
    using lt Suc.prems(2) nf by (subst grabTrials.simps) (simp add: Let_def)
  show ?case
    unfolding step IH rep by (simp add: request_def grabRound_def)
qed

lemma grabTrials_all_fail:
  "(\<forall>j. trial \<le> j \<and> j < maxTrialsCount \<longrightarrow> grabResult j \<noteq> GrabSuccess) \<Longrightarrow>
   grabTrials grabResult trial (w, X) =
     (w, X\<lparr>requests := requests X @ concat (replicate (maxTrialsCount - trial) (grabRound w))\<rparr>)"
proof (induction "maxTrialsCount - trial" arbitrary: trial X)
  case 0
  then show ?case by (subst grabTrials.simps) simp
next
  case (Suc n)
  then have lt: "trial < maxTrialsCount" and n: "n = maxTrialsCount - (trial + 1)" by simp_all
  have nf: "grabResult trial \<noteq> GrabSuccess" using Suc.prems lt by simp
  have IH: "grabTrials grabResult (trial + 1) (w, request (Sleep 50) (request (XGrabPointer (m_window w)) X)) =
     (w, (request (Sleep 50) (request (XGrabPointer (m_window w)) X))\<lparr>requests := requests (request (Sleep 50) (request (XGrabPointer (m_window w)) X)) @ concat (replicate (maxTrialsCount - (trial + 1)) (grabRound w))\<rparr>)"
    using Suc.hyps(1)[OF n] Suc.prems by simp
  have rep: "replicate (maxTrialsCount - trial) (grabRound w) = grabRound w # replicate (maxTrialsCount - (trial + 1)) (grabRound w)"
    using lt by (metis Suc.hyps(2) n replicate_Suc)
  have step: "grabTrials grabResult trial (w, X) =
      grabTrials grabResult (trial + 1) (w, request (Sleep 50) (request (XGrabPointer (m_window w)) X))"
    using lt nf by (subst grabTrials.simps) (simp add: Let_def)
  show ?case
    unfolding step IH rep by (simp add: request_def grabRound_def)
qed

lemma grabAttempts_append: "grabAttempts (xs @ ys) = grabAttempts xs + grabAttempts ys"
  by (simp add: grabAttempts_def)

lemma grabAttempts_rounds: "grabAttempts (concat (replicate n (grabRound w))) = n"
  by (induction n) (simp_all add: grabAttempts_def grabRound_def)

lemma grabAttempts_single: "grabAttempts [XGrabPointer win] = 1"
  by (simp add: grabAttempts_def)

lemma grabTrials_cases:
  "(\<exists>i<maxTrialsCount. grabResult i = GrabSuccess \<and> (\<forall>j<i. grabResult j \<noteq> GrabSuccess)) \<or>
   (\<forall>j<maxTrialsCount. grabResult j \<noteq> GrabSuccess)"
proof (cases "\<exists>i<maxTrialsCount. grabResult i = GrabSuccess")
  case True
  then obtain i where i: "i < maxTrialsCount \<and> grabResult i = GrabSuccess" by blast
  define k where "k = (LEAST i. i < maxTrialsCount \<and> grabResult i = GrabSuccess)"
  have k: "k < maxTrialsCount \<and> grabResult k = GrabSuccess"
    unfolding k_def using i by (rule LeastI)
  have "\<forall>j<k. grabResult j \<noteq> GrabSuccess"
  proof (intro allI impI)
    fix j assume "j < k"
    then have "\<not> (j < maxTrialsCount \<and> grabResult j = GrabSuccess)"
      unfolding k_def by (rule not_less_Least)
    with \<open>j < k\<close> k show "grabResult j \<noteq> GrabSuccess" by simp
  qed
  with k show ?thesis by blast
next
  case False
  then show ?thesis by blast
qed

text \<open>
  C10. \<open>setMouseCursorGrabbed\<close> changes nothing when the window is fullscreen or
  the requested grab state is the current one. When grabbing, it calls \<open>XGrabPointer\<close>
  at most 5 times (\<open>maxTrialsCount\<close>), stops at the first success with
  \<open>m_cursorGrabbed\<close> set, and leaves the flag false (and reports the failure) when all
  5 attempts fail. When releasing, it calls \<open>XUngrabPointer\<close> and clears the flag.
\<close>

theorem setMouseCursorGrabbed_effect:
  "(m_fullscreen w \<or> m_cursorGrabbed w = grabbed \<longrightarrow>
      setMouseCursorGrabbed grabResult grabbed (w, X) = (w, X)) \<and>
   (\<not> m_fullscreen w \<and> \<not> m_cursorGrabbed w \<longrightarrow>
      grabAttempts (requests (snd (setMouseCursorGrabbed grabResult True (w, X))))
        \<le> grabAttempts (requests X) + 5 \<and>
      (\<forall>i<5. grabResult i = GrabSuccess \<and> (\<forall>j<i. grabResult j \<noteq> GrabSuccess) \<longrightarrow>
         setMouseCursorGrabbed grabResult True (w, X) =
           (w\<lparr>m_cursorGrabbed := True\<rparr>,
            X\<lparr>requests := requests X @ concat (replicate i (grabRound w)) @
                            [XGrabPointer (m_window w)]\<rparr>)) \<and>
      ((\<forall>j<5. grabResult j \<noteq> GrabSuccess) \<longrightarrow>
         setMouseCursorGrabbed grabResult True (w, X) =
           (w, err ''Failed to grab mouse cursor''
                 (X\<lparr>requests := requests X @ concat (replicate 5 (grabRound w))\<rparr>)))) \<and>
   (\<not> m_fullscreen w \<and> m_cursorGrabbed w \<longrightarrow>
      setMouseCursorGrabbed grabResult False (w, X) =
        (w\<lparr>m_cursorGrabbed := False\<rparr>, request XUngrabPointer X))"
proof -
  have same: "m_fullscreen w \<or> m_cursorGrabbed w = grabbed \<Longrightarrow>
      setMouseCursorGrabbed grabResult grabbed (w, X) = (w, X)"
    by (auto simp: setMouseCursorGrabbed_def)
  have release: "\<not> m_fullscreen w \<and> m_cursorGrabbed w \<Longrightarrow>
      setMouseCursorGrabbed grabResult False (w, X) =
        (w\<lparr>m_cursorGrabbed := False\<rparr>, request XUngrabPointer X)"
    by (simp add: setMouseCursorGrabbed_def)
  have ok: "setMouseCursorGrabbed grabResult True (w, X) =
           (w\<lparr>m_cursorGrabbed := True\<rparr>,
            X\<lparr>requests := requests X @ concat (replicate i (grabRound w)) @
                            [XGrabPointer (m_window w)]\<rparr>)"
    if "\<not> m_fullscreen w \<and> \<not> m_cursorGrabbed w" "i < 5" "grabResult i = GrabSuccess"
       "\<forall>j<i. grabResult j \<noteq> GrabSuccess" for i
    using that grabTrials_first_success[of 0 i grabResult w X]
    by (simp add: setMouseCursorGrabbed_def maxTrialsCount_def)
  have fail: "setMouseCursorGrabbed grabResult True (w, X) =
           (w, err ''Failed to grab mouse cursor''
                 (X\<lparr>requests := requests X @ concat (replicate 5 (grabRound w))\<rparr>))"
    if "\<not> m_fullscreen w \<and> \<not> m_cursorGrabbed w" "\<forall>j<5. grabResult j \<noteq> GrabSuccess"
    using that grabTrials_all_fail[of 0 grabResult w X]
    by (simp add: setMouseCursorGrabbed_def maxTrialsCount_def)
  have bound: "grabAttempts (requests (snd (setMouseCursorGrabbed grabResult True (w, X))))
        \<le> grabAttempts (requests X) + 5"
    if h: "\<not> m_fullscreen w \<and> \<not> m_cursorGrabbed w"
  proof -
    from grabTrials_cases[of grabResult] show ?thesis
    proof
      assume "\<exists>i<maxTrialsCount. grabResult i = GrabSuccess \<and> (\<forall>j<i. grabResult j \<noteq> GrabSuccess)"
      then obtain i where i: "i < 5" "grabResult i = GrabSuccess" "\<forall>j<i. grabResult j \<noteq> GrabSuccess"
        by (auto simp: maxTrialsCount_def)
      show ?thesis
        using i(1) by (simp add: ok[OF h i] grabAttempts_append grabAttempts_rounds grabAttempts_single)
    next
      assume "\<forall>j<maxTrialsCount. grabResult j \<noteq> GrabSuccess"
      then have "\<forall>j<5. grabResult j \<noteq> GrabSuccess" by (simp add: maxTrialsCount_def)
      then show ?thesis
        by (simp add: fail[OF h] err_def grabAttempts_append grabAttempts_rounds)
    qed
  qed
  show ?thesis
    using same release ok fail bound by blast
qed

theorem setMouseCursorGrabbed_effect_witness:
  "\<not> m_fullscreen exampleWindow \<and> \<not> m_cursorGrabbed exampleWindow \<and>
   thirdGrabSucceeds 2 = GrabSuccess \<and> thirdGrabSucceeds 0 \<noteq> GrabSuccess \<and>
   thirdGrabSucceeds 1 \<noteq> GrabSuccess \<and>
   setMouseCursorGrabbed thirdGrabSucceeds True (exampleWindow, emptyWorld) =
     (exampleWindow\<lparr>m_cursorGrabbed := True\<rparr>,
      emptyWorld\<lparr>requests := [XGrabPointer 77, Sleep 50, XGrabPointer 77, Sleep 50, XGrabPointer 77]\<rparr>) \<and>
   grabAttempts (requests (snd (setMouseCursorGrabbed thirdGrabSucceeds True (exampleWindow, emptyWorld)))) \<le> 5 \<and>
   setMouseCursorGrabbed (\<lambda>trial. 1) True (exampleWindow, emptyWorld) =
     (exampleWindow, err ''Failed to grab mouse cursor''
        (emptyWorld\<lparr>requests := concat (replicate 5 [XGrabPointer 77, Sleep 50])\<rparr>)) \<and>
   setMouseCursorGrabbed thirdGrabSucceeds False (exampleWindow\<lparr>m_cursorGrabbed := True\<rparr>, emptyWorld) =
     (exampleWindow\<lparr>m_cursorGrabbed := False\<rparr>, request XUngrabPointer emptyWorld) \<and>
   setMouseCursorGrabbed thirdGrabSucceeds True (exampleWindow\<lparr>m_fullscreen := True\<rparr>, emptyWorld) =
     (exampleWindow\<lparr>m_fullscreen := True\<rparr>, emptyWorld)"
proof -
  have pre: "\<not> m_fullscreen exampleWindow \<and> \<not> m_cursorGrabbed exampleWindow"
    by (simp add: exampleWindow_def)
  have r: "thirdGrabSucceeds 2 = GrabSuccess \<and> (\<forall>j<2. thirdGrabSucceeds j \<noteq> GrabSuccess)"
    by (simp add: thirdGrabSucceeds_def GrabSuccess_def)
  have never: "\<forall>j<5. (\<lambda>trial::nat. 1::cint) j \<noteq> GrabSuccess"
    by (simp add: GrabSuccess_def)
  note t = setMouseCursorGrabbed_effect[of exampleWindow True thirdGrabSucceeds emptyWorld]
  note u = setMouseCursorGrabbed_effect[of exampleWindow True "\<lambda>trial. 1" emptyWorld]
  note v = setMouseCursorGrabbed_effect[of "exampleWindow\<lparr>m_cursorGrabbed := True\<rparr>" False thirdGrabSucceeds emptyWorld]
  note x = setMouseCursorGrabbed_effect[of "exampleWindow\<lparr>m_fullscreen := True\<rparr>" True thirdGrabSucceeds emptyWorld]
  have a: "setMouseCursorGrabbed thirdGrabSucceeds True (exampleWindow, emptyWorld) =
     (exampleWindow\<lparr>m_cursorGrabbed := True\<rparr>,
      emptyWorld\<lparr>requests := [XGrabPointer 77, Sleep 50, XGrabPointer 77, Sleep 50, XGrabPointer 77]\<rparr>)"
  proof -
    from t pre have "\<forall>i<5. thirdGrabSucceeds i = GrabSuccess \<and> (\<forall>j<i. thirdGrabSucceeds j \<noteq> GrabSuccess) \<longrightarrow>
         setMouseCursorGrabbed thirdGrabSucceeds True (exampleWindow, emptyWorld) =
           (exampleWindow\<lparr>m_cursorGrabbed := True\<rparr>,
            emptyWorld\<lparr>requests := requests emptyWorld @ concat (replicate i (grabRound exampleWindow)) @
                            [XGrabPointer (m_window exampleWindow)]\<rparr>)" by blast
    then have "setMouseCursorGrabbed thirdGrabSucceeds True (exampleWindow, emptyWorld) =
           (exampleWindow\<lparr>m_cursorGrabbed := True\<rparr>,
            emptyWorld\<lparr>requests := requests emptyWorld @ concat (replicate 2 (grabRound exampleWindow)) @
                            [XGrabPointer (m_window exampleWindow)]\<rparr>)"
      using r by simp
    then show ?thesis
      by (simp add: grabRound_def exampleWindow_def emptyWorld_def numeral_2_eq_2)
  qed
  have b: "grabAttempts (requests (snd (setMouseCursorGrabbed thirdGrabSucceeds True (exampleWindow, emptyWorld)))) \<le> 5"
    using t pre by (simp add: emptyWorld_def grabAttempts_def)
  have c: "setMouseCursorGrabbed (\<lambda>trial. 1) True (exampleWindow, emptyWorld) =
     (exampleWindow, err ''Failed to grab mouse cursor''
        (emptyWorld\<lparr>requests := concat (replicate 5 [XGrabPointer 77, Sleep 50])\<rparr>))"
    using u pre never by (simp add: grabRound_def exampleWindow_def emptyWorld_def)
  have d: "setMouseCursorGrabbed thirdGrabSucceeds False (exampleWindow\<lparr>m_cursorGrabbed := True\<rparr>, emptyWorld) =
     (exampleWindow\<lparr>m_cursorGrabbed := False\<rparr>, request XUngrabPointer emptyWorld)"
    using v by (simp add: exampleWindow_def)
  have e: "setMouseCursorGrabbed thirdGrabSucceeds True (exampleWindow\<lparr>m_fullscreen := True\<rparr>, emptyWorld) =
     (exampleWindow\<lparr>m_fullscreen := True\<rparr>, emptyWorld)"
    using x by simp
  show ?thesis using pre r a b c d e by (simp add: thirdGrabSucceeds_def GrabSuccess_def)
qed
end
